theory Spec2Isabelle
  imports Complex_Main "HOL-Library.Sublist"
begin

section \<open>Errors and tensors\<close>

text \<open>
  The exceptions the modelled code can raise, by their Python class. Floating-point
  values are modelled by \<open>real\<close>: rounding and NaN are not part of this development.
\<close>

datatype py_error = ValueError | IndexError | RuntimeError | ZeroDivisionError

text \<open>
  A two-dimensional tensor is the list of its rows together with the number of columns,
  which a tensor keeps also when it has no row.
\<close>

record 'a tensor2 =
  ncols :: nat
  rows :: "'a list list"

definition wf_tensor2 :: "'a tensor2 \<Rightarrow> bool" where
  "wf_tensor2 t = list_all (\<lambda>r. length r = ncols t) (rows t)"

text \<open>
  The \<open>target\<close> argument of \<open>accuracy\<close>: a one-dimensional tensor of class indices
  (\<open>ndim = 1\<close>) or a two-dimensional tensor of per-class scores (\<open>ndim = 2\<close>).
\<close>

datatype 'b target = Labels "int list" | Scores "'b tensor2"

section \<open>The tensor operations used by \<open>accuracy\<close>\<close>

text \<open>
  \<open>output.topk(k, 1, True, True)[1]\<close>: for every row the indices of its \<open>k\<close> largest
  entries, largest first. Which entries are selected, and in which order they are
  listed, is decided inside the framework, which says nothing about the order of equal
  entries. The selection is therefore a parameter of the model: \<open>topk_indices k t\<close> is the
  list of the index lists of the rows of \<open>t\<close>. The framework raises when \<open>k\<close> exceeds the
  number of columns.
\<close>

definition tensor_topk ::
  "(nat \<Rightarrow> 'a tensor2 \<Rightarrow> nat list list) \<Rightarrow> nat \<Rightarrow> 'a tensor2
      \<Rightarrow> py_error + nat tensor2" where
  "tensor_topk topk_indices k t =
     (if ncols t < k then Inl RuntimeError
      else Inr \<lparr>ncols = k, rows = topk_indices k t\<rparr>)"

text \<open>
  What the framework documents of the selection, for one row \<open>r\<close> and its index list \<open>p\<close>:
  there are \<open>k\<close> indices, all different and all indices of the row; they are listed by
  descending entry; and no entry that is left out is larger than one that is listed.
  Nothing is required of the order or of the choice among equal entries.
\<close>

definition row_topk_ok :: "nat \<Rightarrow> 'a::linorder list \<Rightarrow> nat list \<Rightarrow> bool" where
  "row_topk_ok k r p =
     (length p = k \<and> distinct p \<and> list_all (\<lambda>i. i < length r) p
      \<and> sorted_wrt (\<lambda>i j. r ! j \<le> r ! i) p
      \<and> list_all (\<lambda>j. j \<in> set p \<or> list_all (\<lambda>i. r ! j \<le> r ! i) p) [0..<length r])"

definition topk_ok ::
  "(nat \<Rightarrow> 'a::linorder tensor2 \<Rightarrow> nat list list) \<Rightarrow> nat \<Rightarrow> 'a
      tensor2 \<Rightarrow> bool" where
  "topk_ok topk_indices k t = list_all2 (row_topk_ok k) (rows t) (topk_indices k t)"

text \<open>\<open>pred.t()\<close>: the transposed tensor.\<close>

definition tensor_t :: "'a tensor2 \<Rightarrow> 'a tensor2" where
  "tensor_t t = \<lparr>ncols = length (rows t), rows = map (\<lambda>j. map (\<lambda>r. r ! j) (rows t))
      [0..<ncols t]\<rparr>"

text \<open>
  \<open>target.max(dim=1)[1]\<close>: per row the index of the maximal entry, the first one when
  several entries are maximal. The framework raises on a reduction over no column.
\<close>

fun argmax_scan :: "'a::linorder list \<Rightarrow> nat \<Rightarrow> nat \<Rightarrow> 'a \<Rightarrow> nat" where
  "argmax_scan [] i best bv = best"
| "argmax_scan (x # xs) i best bv =
     (if bv < x then argmax_scan xs (Suc i) i x else argmax_scan xs (Suc i) best bv)"

fun argmax_row :: "'a::linorder list \<Rightarrow> nat" where
  "argmax_row [] = 0"
| "argmax_row (x # xs) = argmax_scan xs 1 0 x"

definition max_dim1_indices :: "'b::linorder tensor2 \<Rightarrow> py_error + int list" where
  "max_dim1_indices t =
     (if ncols t = 0 then Inl IndexError
      else Inr (map (\<lambda>r. int (argmax_row r)) (rows t)))"

text \<open>
  \<open>pred.eq(target[None])\<close>: \<open>target[None]\<close> has one row, which is broadcast against every
  row of \<open>pred\<close>. The sizes of the last dimension must agree or one of them must be 1.
\<close>

definition eq_broadcast :: "nat tensor2 \<Rightarrow> int list \<Rightarrow> py_error + bool tensor2" where
  "eq_broadcast p tgt =
     (let n = ncols p; m = length tgt in
      if n = m then
        Inr \<lparr>ncols = n, rows = map (\<lambda>r. map2 (\<lambda>a b. int a = b) r tgt) (rows p)\<rparr>
      else if m = 1 then
        Inr \<lparr>ncols = n, rows = map (\<lambda>r. map (\<lambda>a. int a = hd tgt) r) (rows p)\<rparr>
      else if n = 1 then
        Inr \<lparr>ncols = m, rows = map (\<lambda>r. map (\<lambda>b. int (hd r) = b) tgt) (rows p)\<rparr>
      else Inl RuntimeError)"

text \<open>\<open>correct[:k].flatten().sum()\<close>: the number of true entries in the first
    \<open>k\<close> rows.\<close>

definition sum_first_rows :: "nat \<Rightarrow> bool tensor2 \<Rightarrow> nat" where
  "sum_first_rows k c = length (filter id (concat (take k (rows c))))"

text \<open>Python's \<open>max\<close> of a tuple, which raises on the empty tuple.\<close>

fun py_max :: "nat list \<Rightarrow> py_error + nat" where
  "py_max [] = Inl ValueError"
| "py_max (k # ks) = Inr (fold max ks k)"

section \<open>\<open>accuracy\<close>\<close>

text \<open>
  The steps of \<open>accuracy\<close> in the order of the source, each exception ending the
  computation: \<open>max(topk)\<close>, \<open>target.size(0)\<close>, the reduction of a two-dimensional target, the
  \<open>topk\<close> of the output, the transposition and the comparison with the target, and for
  every \<open>k\<close> the count of matches in the first \<open>k\<close> rows times \<open>100.0 / batch_size\<close>.
  The first argument is the framework's selection of the top entries.
\<close>

definition accuracy ::
  "(nat \<Rightarrow> 'a tensor2 \<Rightarrow> nat list list) \<Rightarrow>
   'a::linorder tensor2 \<Rightarrow> 'b::linorder target \<Rightarrow> nat list \<Rightarrow> py_error + real list" where
  "accuracy topk_indices output target topk =
     (case py_max topk of
        Inl e \<Rightarrow> Inl e
      | Inr maxk \<Rightarrow>
          (let batch_size = (case target of Labels l \<Rightarrow> length l | Scores s \<Rightarrow> length (rows s))
           in (case (case target of Labels l \<Rightarrow> Inr l | Scores s \<Rightarrow> max_dim1_indices s) of
                 Inl e \<Rightarrow> Inl e
               | Inr tgt \<Rightarrow>
                   (case tensor_topk topk_indices maxk output of
                      Inl e \<Rightarrow> Inl e
                    | Inr pred \<Rightarrow>
                        (case eq_broadcast (tensor_t pred) tgt of
                           Inl e \<Rightarrow> Inl e
                         | Inr correct \<Rightarrow>
                             (if batch_size = 0 then Inl ZeroDivisionError
                              else Inr (map (\<lambda>k. real (sum_first_rows k correct) *
                                                   (100 / real batch_size)) topk)))))))"

section \<open>Calls into the framework, and runs\<close>

text \<open>
  The procedures \<open>train_mixed_precision\<close>, \<open>train_epoch\<close> and \<open>test\<close>
      act only by calling the
  framework. A run of a procedure is the list of the calls it makes, in the order it makes
  them, and either the exception that ends it or its result.

  The exceptions of a run are those of the code's own arithmetic and of the tensor
  operations of \<open>accuracy\<close>; what the framework may raise inside a forward pass, a
  backward pass or a log call is not modelled.

  The dictionaries handed to the dashboard are records with one field per key.
\<close>

record wandb_train_info =
  wb_train_loss :: real
  wb_train_epoch :: int
  wb_train_step :: int
  wb_train_samples_seen :: int
  wb_perf_rank_samples_per_second :: real

record wandb_test_info =
  wb_test_loss :: real
  wb_test_epoch :: int
  wb_test_acc1 :: real
  wb_test_acc5 :: real

text \<open>The values a training console line is formatted from, in the order of the line.\<close>

record train_line =
  ln_epoch :: int
  ln_processed_samples :: nat
  ln_len_sampler :: nat
  ln_completion_percentage :: real
  ln_loss :: real
  ln_loss_scale :: "real option"

text \<open>
  The calls, by the expression of the source that makes them:
  \<^item> \<open>ModelTrain\<close>, \<open>ModelEval\<close>: \<open>model.train()\<close>, \<open>model.eval()\<close>;
  \<^item> \<open>SamplerSetEpoch e\<close>: \<open>train_sampler.set_epoch(e)\<close>;
  \<^item> \<open>PerfCounter\<close>: \<open>time.perf_counter()\<close>;
  \<^item> \<open>DataCuda\<close>, \<open>TargetCuda\<close>: \<open>data.cuda()\<close>, \<open>target.cuda()\<close>;
  \<^item> \<open>ZeroGrad\<close>, \<open>OptimizerStep\<close>, \<open>OptimizerSynchronize\<close>:
      \<open>optimizer.zero_grad()\<close>,
    \<open>optimizer.step()\<close>, \<open>optimizer.synchronize()\<close>;
  \<^item> \<open>AutocastEnter\<close>, \<open>AutocastExit\<close>: entering and leaving \<open>with
      torch.cuda.amp.autocast()\<close>;
  \<^item> \<open>SkipSynchronizeEnter\<close>, \<open>SkipSynchronizeExit\<close>: entering and leaving
    \<open>with optimizer.skip_synchronize()\<close>;
  \<^item> \<open>InferenceModeEnter\<close>, \<open>InferenceModeExit\<close>: entering and leaving
    \<open>with torch.inference_mode()\<close>;
  \<^item> \<open>ModelForward\<close>, \<open>Criterion\<close>, \<open>Backward\<close>:
      \<open>model(data)\<close>, \<open>criterion(output, target)\<close>,
    \<open>.backward()\<close>;
  \<^item> \<open>ScalerScale\<close>, \<open>ScalerUnscale\<close>, \<open>ScalerStep\<close>,
      \<open>ScalerUpdate\<close>, \<open>ScalerGetScale\<close>:
    \<open>scaler.scale(loss)\<close>, \<open>scaler.unscale_(optimizer)\<close>, \<open>scaler.step(optimizer)\<close>,
    \<open>scaler.update()\<close>, \<open>scaler.get_scale()\<close>;
  \<^item> \<open>CudaSynchronize\<close>: \<open>torch.cuda.synchronize()\<close>;
  \<^item> \<open>LossItem\<close>, \<open>TensorItem\<close>: \<open>.item()\<close> on a loss and on a
      value of \<open>accuracy\<close>;
  \<^item> \<open>WandbLogTrain info s\<close>, \<open>WandbLogTest info\<close>: \<open>wandb_run.log(info, step=s)\<close>,
    \<open>wandb_run.log(info)\<close>;
  \<^item> \<open>PrintTrain\<close>, \<open>PrintTest\<close>: the \<open>print\<close> of a training line
      and of the test line.
\<close>

datatype call =
    ModelTrain
  | ModelEval
  | SamplerSetEpoch int
  | PerfCounter
  | DataCuda
  | TargetCuda
  | ZeroGrad
  | AutocastEnter
  | AutocastExit
  | ModelForward
  | Criterion
  | ScalerScale
  | Backward
  | OptimizerSynchronize
  | ScalerUnscale
  | SkipSynchronizeEnter
  | SkipSynchronizeExit
  | ScalerStep
  | ScalerUpdate
  | OptimizerStep
  | CudaSynchronize
  | LossItem
  | ScalerGetScale
  | WandbLogTrain wandb_train_info int
  | PrintTrain train_line
  | InferenceModeEnter
  | InferenceModeExit
  | TensorItem
  | WandbLogTest wandb_test_info
  | PrintTest int real real real

type_synonym 'a run = "call list \<times> (py_error + 'a)"

definition ret :: "'a \<Rightarrow> 'a run" where
  "ret x = ([], Inr x)"

definition calls :: "call list \<Rightarrow> unit run" where
  "calls cs = (cs, Inr ())"

definition raise :: "py_error \<Rightarrow> 'a run" where
  "raise e = ([], Inl e)"

definition lift_result :: "py_error + 'a \<Rightarrow> 'a run" where
  "lift_result r = ([], r)"

text \<open>Sequencing: the calls of the first run, then, unless it raised, those of the second.\<close>

definition bind_run :: "'a run \<Rightarrow> ('a \<Rightarrow> 'b run) \<Rightarrow> 'b run" where
  "bind_run m f =
     (case m of
        (t, Inl e) \<Rightarrow> (t, Inl e)
      | (t, Inr x) \<Rightarrow> (case f x of (t', r) \<Rightarrow> (t @ t', r)))"

definition then_run :: "'a run \<Rightarrow> 'b run \<Rightarrow> 'b run" where
  "then_run m n = bind_run m (\<lambda>_. n)"

fun seq_runs :: "unit run list \<Rightarrow> unit run" where
  "seq_runs [] = ret ()"
| "seq_runs (m # ms) = then_run m (seq_runs ms)"

text \<open>A \<open>with\<close> block: the context is left also when the block raises.\<close>

definition with_ctx :: "call \<Rightarrow> call \<Rightarrow> 'a run \<Rightarrow> 'a run" where
  "with_ctx enter leave m = (case m of (t, r) \<Rightarrow> (enter # t @ [leave], r))"

text \<open>\<open>for batch_idx, b in enumerate(loader)\<close>, counting from \<open>i\<close>.\<close>

fun for_enumerate :: "(nat \<Rightarrow> 'b \<Rightarrow> unit run) \<Rightarrow> nat \<Rightarrow> 'b list
    \<Rightarrow> unit run" where
  "for_enumerate body i [] = ret ()"
| "for_enumerate body i (b # bs) = then_run (body i b) (for_enumerate body (Suc i) bs)"

section \<open>The training procedures\<close>

text \<open>
  What a training procedure reads of one batch and of the framework's answers while it
  handles that batch: \<open>len(data)\<close>, the value of \<open>loss.item()\<close>, the difference of the two
  clock readings around the step, and the value of \<open>scaler.get_scale()\<close> (read by
  \<open>train_mixed_precision\<close> only). The train loader is the list of its batches, so
  \<open>len(train_loader)\<close> is the length of that list; \<open>len(train_sampler)\<close> is a number.
  The model, the criterion, the optimizer and the scaler are the framework's; the
  procedures only call them.
\<close>

record batch =
  len_data :: nat
  loss_item :: real
  step_time :: real
  loss_scale :: real

definition train_mixed_precision_body ::
  "nat \<Rightarrow> nat \<Rightarrow> int \<Rightarrow> int \<Rightarrow> bool \<Rightarrow> 'r option
      \<Rightarrow> nat \<Rightarrow> batch \<Rightarrow> unit run" where
  "train_mixed_precision_body len_sampler len_loader epoch log_interval use_cuda wandb_run batch_idx b =
     seq_runs [
       calls [PerfCounter],
       if use_cuda then calls [DataCuda, TargetCuda] else calls [],
       calls [ZeroGrad],
       with_ctx AutocastEnter AutocastExit (calls [ModelForward, Criterion]),
       calls [ScalerScale, Backward],
       calls [OptimizerSynchronize],
       calls [ScalerUnscale],
       with_ctx SkipSynchronizeEnter SkipSynchronizeExit (calls [ScalerStep]),
       calls [ScalerUpdate],
       case wandb_run of
         None \<Rightarrow> calls []
       | Some r \<Rightarrow>
           (let global_step = (epoch - 1) * int len_loader + int batch_idx in
            seq_runs [
              calls [PerfCounter, LossItem],
              if step_time b = 0 then raise ZeroDivisionError
              else calls [WandbLogTrain
                \<lparr>wb_train_loss = loss_item b,
                 wb_train_epoch = epoch,
                 wb_train_step = global_step,
                 wb_train_samples_seen = global_step * int (len_data b),
                 wb_perf_rank_samples_per_second = real (len_data b) / step_time b\<rparr>
                global_step]]),
       if log_interval = 0 then raise ZeroDivisionError
       else if int batch_idx mod log_interval = 0 then
         (if len_loader = 0 then raise ZeroDivisionError
          else calls [LossItem, ScalerGetScale, PrintTrain
            \<lparr>ln_epoch = epoch,
             ln_processed_samples = batch_idx * len_data b,
             ln_len_sampler = len_sampler,
             ln_completion_percentage = 100 * real batch_idx / real len_loader,
             ln_loss = loss_item b,
             ln_loss_scale = Some (loss_scale b)\<rparr>])
       else calls []]"

definition train_mixed_precision ::
  "nat \<Rightarrow> batch list \<Rightarrow> int \<Rightarrow> int \<Rightarrow> bool \<Rightarrow> 'r
      option \<Rightarrow> unit run" where
  "train_mixed_precision len_sampler train_loader epoch log_interval use_cuda wandb_run =
     seq_runs [
       calls [ModelTrain],
       calls [SamplerSetEpoch epoch],
       for_enumerate
         (train_mixed_precision_body len_sampler (length train_loader) epoch log_interval use_cuda wandb_run)
         0 train_loader]"

definition train_epoch_body ::
  "nat \<Rightarrow> nat \<Rightarrow> int \<Rightarrow> int \<Rightarrow> bool \<Rightarrow> 'r option
      \<Rightarrow> nat \<Rightarrow> batch \<Rightarrow> unit run" where
  "train_epoch_body len_sampler len_loader epoch log_interval use_cuda wandb_run batch_idx b =
     seq_runs [
       calls [PerfCounter],
       if use_cuda then calls [DataCuda, TargetCuda] else calls [],
       calls [ZeroGrad],
       calls [ModelForward],
       calls [Criterion],
       calls [Backward],
       calls [OptimizerStep],
       case wandb_run of
         None \<Rightarrow> calls []
       | Some r \<Rightarrow>
           (let global_step = (epoch - 1) * int len_loader + int batch_idx in
            seq_runs [
              calls [CudaSynchronize],
              calls [PerfCounter, LossItem],
              if step_time b = 0 then raise ZeroDivisionError
              else calls [WandbLogTrain
                \<lparr>wb_train_loss = loss_item b,
                 wb_train_epoch = epoch,
                 wb_train_step = global_step,
                 wb_train_samples_seen = global_step * int (len_data b),
                 wb_perf_rank_samples_per_second = real (len_data b) / step_time b\<rparr>
                global_step]]),
       if log_interval = 0 then raise ZeroDivisionError
       else if int batch_idx mod log_interval = 0 then
         (if len_loader = 0 then raise ZeroDivisionError
          else calls [LossItem, PrintTrain
            \<lparr>ln_epoch = epoch,
             ln_processed_samples = batch_idx * len_data b,
             ln_len_sampler = len_sampler,
             ln_completion_percentage = 100 * real batch_idx / real len_loader,
             ln_loss = loss_item b,
             ln_loss_scale = None\<rparr>])
       else calls []]"

definition train_epoch ::
  "nat \<Rightarrow> batch list \<Rightarrow> int \<Rightarrow> int \<Rightarrow> bool \<Rightarrow> 'r
      option \<Rightarrow> unit run" where
  "train_epoch len_sampler train_loader epoch log_interval use_cuda wandb_run =
     seq_runs [
       calls [ModelTrain],
       calls [SamplerSetEpoch epoch],
       for_enumerate
         (train_epoch_body len_sampler (length train_loader) epoch log_interval use_cuda wandb_run)
         0 train_loader]"

section \<open>The evaluation pass\<close>

text \<open>
  What \<open>test\<close> reads of one batch: the tensor \<open>model(data)\<close>, the target tensor and the value
  of \<open>criterion(output, target).item()\<close>. Moving a tensor to the accelerator does not
  change its entries. \<open>accuracy\<close> is called with its default \<open>topk = (1, 5)\<close>, inside its own
  inference-mode block. As for \<open>accuracy\<close>, the first argument is the framework's selection
  of the top entries.
\<close>

record test_batch =
  tb_output :: "real tensor2"
  tb_target :: "real target"
  tb_loss :: real

fun test_loop ::
  "(nat \<Rightarrow> real tensor2 \<Rightarrow> nat list list) \<Rightarrow> bool \<Rightarrow> test_batch
      list \<Rightarrow>
   real \<times> real \<times> real \<Rightarrow> (real \<times> real \<times> real) run" where
  "test_loop topk_indices use_cuda [] acc = ret acc"
| "test_loop topk_indices use_cuda (b # bs) (test_loss, acc1, acc5) =
     bind_run (seq_runs [
       if use_cuda then calls [DataCuda, TargetCuda] else calls [],
       calls [ModelForward],
       calls [Criterion, LossItem]]) (\<lambda>_.
     bind_run (with_ctx InferenceModeEnter InferenceModeExit
                 (lift_result (accuracy topk_indices (tb_output b) (tb_target b) [1, 5]))) (\<lambda>res.
     case res of
       [batch_acc1, batch_acc5] \<Rightarrow>
         then_run (calls [TensorItem, TensorItem])
           (test_loop topk_indices use_cuda bs
              (test_loss + tb_loss b, acc1 + batch_acc1, acc5 + batch_acc5))
     | _ \<Rightarrow> raise ValueError))"

definition test ::
  "(nat \<Rightarrow> real tensor2 \<Rightarrow> nat list list) \<Rightarrow> nat \<Rightarrow> test_batch
      list \<Rightarrow> bool \<Rightarrow> int \<Rightarrow>
   'r option \<Rightarrow> unit run" where
  "test topk_indices len_sampler test_loader use_cuda epoch wandb_run =
     bind_run (calls [ModelEval]) (\<lambda>_.
     bind_run (with_ctx InferenceModeEnter InferenceModeExit
                 (test_loop topk_indices use_cuda test_loader (0, 0, 0))) (\<lambda>(test_loss, acc1, acc5).
     if len_sampler = 0 then raise ZeroDivisionError
     else
       (let test_loss = test_loss / real len_sampler;
            acc1 = acc1 / real len_sampler;
            acc5 = acc5 / real len_sampler
        in seq_runs [
             case wandb_run of
               None \<Rightarrow> calls []
             | Some r \<Rightarrow> calls [WandbLogTest
                 \<lparr>wb_test_loss = test_loss,
                  wb_test_epoch = epoch,
                  wb_test_acc1 = acc1,
                  wb_test_acc5 = acc5\<rparr>],
             calls [PrintTest epoch test_loss acc1 acc5]])))"

section \<open>Data construction\<close>

text \<open>The fields of the parsed command line that \<open>load_data\<close> reads.\<close>

record args =
  interpolation :: string
  train_crop_size :: int
  val_resize_size :: int
  val_crop_size :: int

text \<open>
  The transforms of the vision library that \<open>load_data\<close> composes, with the arguments it
  gives them. The interpolation modes are the library's enumeration: its type is left
  open, and the lookup of a mode by its name is a parameter of \<open>load_data\<close> that has no
  value for a name outside the enumeration, where the library raises.

  A dataset is kept as the directory it is read from and the transforms attached to it,
  a distributed sampler as the dataset and the two numbers it is built with. Reading the
  directory tree and computing the shard of a rank are the framework's and are not
  modelled.
\<close>

datatype dtype = torch_float

datatype 'i transform =
    RandomResizedCrop int 'i
  | Resize int 'i
  | CenterCrop int
  | PILToTensor
  | ConvertImageDtype dtype
  | Normalize "real \<times> real \<times> real" "real \<times> real \<times> real"

record 'i image_folder =
  folder_root :: string
  folder_transform :: "'i transform list"

record 'd distributed_sampler =
  sampler_dataset :: 'd
  sampler_num_replicas :: int
  sampler_rank :: int

definition load_data ::
  "(string \<Rightarrow> 'i option) \<Rightarrow> string \<Rightarrow> string \<Rightarrow> args
      \<Rightarrow> int \<Rightarrow> int \<Rightarrow>
   py_error + ('i image_folder \<times> 'i image_folder \<times>
               'i image_folder distributed_sampler \<times> 'i image_folder distributed_sampler)" where
  "load_data InterpolationMode train_dir test_dir args world_size rank =
     (let mean = (0.485, 0.456, 0.406);
          std = (0.229, 0.224, 0.225)
      in case InterpolationMode (interpolation args) of
           None \<Rightarrow> Inl ValueError
         | Some interp \<Rightarrow>
             (let train_transforms = [
                    RandomResizedCrop (train_crop_size args) interp,
                    PILToTensor,
                    ConvertImageDtype torch_float,
                    Normalize mean std];
                  train_dataset = \<lparr>folder_root = train_dir, folder_transform = train_transforms\<rparr>;
                  test_transforms = [
                    Resize (val_resize_size args) interp,
                    CenterCrop (val_crop_size args),
                    PILToTensor,
                    ConvertImageDtype torch_float,
                    Normalize mean std];
                  test_dataset = \<lparr>folder_root = test_dir, folder_transform = test_transforms\<rparr>;
                  train_sampler = \<lparr>sampler_dataset = train_dataset,
                                   sampler_num_replicas = world_size, sampler_rank = rank\<rparr>;
                  test_sampler = \<lparr>sampler_dataset = test_dataset,
                                  sampler_num_replicas = world_size, sampler_rank = rank\<rparr>
              in Inr (train_dataset, test_dataset, train_sampler, test_sampler)))"

text \<open>
  The constants of the normalization, the end that both pipelines are to share, and the
  transforms that augment, that is draw at random.
\<close>

definition imagenet_mean :: "real \<times> real \<times> real" where
  "imagenet_mean = (485 / 1000, 456 / 1000, 406 / 1000)"

definition imagenet_std :: "real \<times> real \<times> real" where
  "imagenet_std = (229 / 1000, 224 / 1000, 225 / 1000)"

definition float_tensor_normalized :: "'i transform list" where
  "float_tensor_normalized =
     [PILToTensor, ConvertImageDtype torch_float, Normalize imagenet_mean imagenet_std]"

fun is_augmentation :: "'i transform \<Rightarrow> bool" where
  "is_augmentation (RandomResizedCrop n m) = True"
| "is_augmentation _ = False"

section \<open>Classes of calls\<close>

text \<open>
  The calls that make up the handling of a batch proper: moving the tensors, the forward
  and backward pass, and everything done to the gradients, the optimizer and the scaler
  before the logging. Reading the clock, reading a value for a log line, the log calls
  themselves and the two calls before the loop are not step calls.
\<close>

definition is_step_call :: "call \<Rightarrow> bool" where
  "is_step_call c = (c \<in> set [DataCuda, TargetCuda, ZeroGrad, AutocastEnter, AutocastExit,
     ModelForward, Criterion, ScalerScale, Backward, OptimizerSynchronize, ScalerUnscale,
     SkipSynchronizeEnter, SkipSynchronizeExit, ScalerStep, ScalerUpdate, OptimizerStep])"

text \<open>The calls on the gradient scaler, and the calls that synchronize gradients.\<close>

definition is_scaler_call :: "call \<Rightarrow> bool" where
  "is_scaler_call c = (c \<in> set [ScalerScale, ScalerUnscale, ScalerStep, ScalerUpdate, ScalerGetScale])"

definition is_gradient_sync_call :: "call \<Rightarrow> bool" where
  "is_gradient_sync_call c = (c \<in> set [OptimizerSynchronize, SkipSynchronizeEnter, SkipSynchronizeExit])"

fun is_wandb_log :: "call \<Rightarrow> bool" where
  "is_wandb_log (WandbLogTrain info st) = True"
| "is_wandb_log (WandbLogTest info) = True"
| "is_wandb_log _ = False"

fun is_print :: "call \<Rightarrow> bool" where
  "is_print (PrintTrain line) = True"
| "is_print (PrintTest ep l a1 a5) = True"
| "is_print _ = False"

text \<open>The dictionaries logged to the dashboard by a training run, in order.\<close>

fun wandb_train_infos :: "call list \<Rightarrow> wandb_train_info list" where
  "wandb_train_infos [] = []"
| "wandb_train_infos (WandbLogTrain info st # cs) = info # wandb_train_infos cs"
| "wandb_train_infos (c # cs) = wandb_train_infos cs"

text \<open>
  The step calls of one batch, as the two procedures make them: the tensors are moved
  first, when \<open>use_cuda\<close> is set, and the gradients are zeroed after that.
\<close>

definition mixed_precision_step :: "bool \<Rightarrow> call list" where
  "mixed_precision_step use_cuda =
     (if use_cuda then [DataCuda, TargetCuda] else []) @
     [ZeroGrad, AutocastEnter, ModelForward, Criterion, AutocastExit, ScalerScale, Backward,
      OptimizerSynchronize, ScalerUnscale, SkipSynchronizeEnter, ScalerStep,
      SkipSynchronizeExit, ScalerUpdate]"

definition full_precision_step :: "bool \<Rightarrow> call list" where
  "full_precision_step use_cuda =
     (if use_cuda then [DataCuda, TargetCuda] else []) @
     [ZeroGrad, ModelForward, Criterion, Backward, OptimizerStep]"

text \<open>
  What is left of a call of the mixed-precision step when the mixed-precision context, the
  loss scaling and the gradient synchronization are taken away: the optimizer step made
  through the scaler becomes a direct optimizer step, the other scaler calls, the
  synchronization calls and the context go, every other call stays.
\<close>

fun without_mixed_precision :: "call \<Rightarrow> call option" where
  "without_mixed_precision AutocastEnter = None"
| "without_mixed_precision AutocastExit = None"
| "without_mixed_precision ScalerScale = None"
| "without_mixed_precision ScalerUnscale = None"
| "without_mixed_precision ScalerUpdate = None"
| "without_mixed_precision ScalerGetScale = None"
| "without_mixed_precision OptimizerSynchronize = None"
| "without_mixed_precision SkipSynchronizeEnter = None"
| "without_mixed_precision SkipSynchronizeExit = None"
| "without_mixed_precision ScalerStep = Some OptimizerStep"
| "without_mixed_precision c = Some c"

text \<open>
  The calls that write the gradients, the weights, the state of the optimizer or the state
  of the scaler. What a call does to the framework's state is the framework's; this is the
  class of calls that the properties of \<open>test\<close> exclude.
\<close>

definition changes_training_state :: "call \<Rightarrow> bool" where
  "changes_training_state c = (c \<in> set [ZeroGrad, Backward, OptimizerSynchronize, ScalerUnscale,
     ScalerStep, ScalerUpdate, OptimizerStep])"

text \<open>
  The calls of a run made outside every inference-mode block, that is with gradient
  tracking on; \<open>d\<close> is the number of blocks open at the start.
\<close>

fun outside_inference_mode :: "nat \<Rightarrow> call list \<Rightarrow> call list" where
  "outside_inference_mode d [] = []"
| "outside_inference_mode d (InferenceModeEnter # cs) = outside_inference_mode (Suc d) cs"
| "outside_inference_mode d (InferenceModeExit # cs) = outside_inference_mode (d - 1) cs"
| "outside_inference_mode d (c # cs) =
     (if d = 0 then c # outside_inference_mode d cs else outside_inference_mode d cs)"

text \<open>The calls of the loop of \<open>test\<close>.\<close>

definition is_eval_call :: "call \<Rightarrow> bool" where
  "is_eval_call c = (c \<in> set [DataCuda, TargetCuda, ModelForward, Criterion, LossItem,
      InferenceModeEnter, InferenceModeExit, TensorItem])"

text \<open>
  Whether the model is in training mode after a run that it entered in mode \<open>m\<close>:
  \<open>model.train()\<close> sets the mode, \<open>model.eval()\<close> clears it, no other call touches it.
\<close>

fun model_training_after :: "bool \<Rightarrow> call list \<Rightarrow> bool" where
  "model_training_after m [] = m"
| "model_training_after m (ModelTrain # cs) = model_training_after True cs"
| "model_training_after m (ModelEval # cs) = model_training_after False cs"
| "model_training_after m (c # cs) = model_training_after m cs"

section \<open>Top-k accuracy, as the specification words it\<close>






text \<open>
  The number of examples whose label is among the first \<open>k\<close> indices that the selection
  lists for their row: \<open>preds\<close> are the index lists of the rows.
\<close>

definition selected_hits :: "nat \<Rightarrow> nat list list \<Rightarrow> int list \<Rightarrow> nat" where
  "selected_hits k preds labels =
     length (filter (\<lambda>(p, t). t \<in> set (map int (take k p))) (zip preds labels))"


definition is_first_argmax :: "'a::linorder list \<Rightarrow> nat \<Rightarrow> bool" where
  "is_first_argmax r i =
     (i < length r \<and> list_all (\<lambda>j. r ! j \<le> r ! i) [0..<length r]
      \<and> list_all (\<lambda>j. r ! j < r ! i) [0..<i])"

section \<open>A selection that meets the framework's promise\<close>

text \<open>
  One selection among those the promise allows, used to run the model on concrete inputs:
  the indices of a row by descending entry, and among equal entries by ascending index.
  It is not the framework's selection; on a row without equal entries every selection
  that meets the promise lists the same indices in the same order.
\<close>

definition ranks_before :: "'a::linorder list \<Rightarrow> nat \<Rightarrow> nat \<Rightarrow> bool" where
  "ranks_before xs i j = (xs ! j < xs ! i \<or> (xs ! i = xs ! j \<and> i < j))"

fun insert_desc :: "'a::linorder list \<Rightarrow> nat \<Rightarrow> nat list \<Rightarrow> nat list" where
  "insert_desc xs i [] = [i]"
| "insert_desc xs i (j # js) =
     (if ranks_before xs i j then i # j # js else j # insert_desc xs i js)"

definition argsort_desc :: "'a::linorder list \<Rightarrow> nat list" where
  "argsort_desc xs = foldr (insert_desc xs) [0..<length xs] []"

definition example_topk :: "nat \<Rightarrow> 'a::linorder tensor2 \<Rightarrow> nat list list" where
  "example_topk k t = map (\<lambda>r. take k (argsort_desc r)) (rows t)"

section \<open>Properties\<close>

subsection \<open>Runs\<close>

lemma then_run_calls: "then_run (calls cs) m = (cs @ fst m, snd m)"
  by (simp add: then_run_def bind_run_def calls_def split: prod.splits)

lemma then_run_raise: "then_run (raise e) m = ([], Inl e)"
  by (simp add: then_run_def bind_run_def raise_def)

lemma then_run_pair_Inr: "then_run (t, Inr x) m = (t @ fst m, snd m)"
  by (simp add: then_run_def bind_run_def split: prod.splits)

lemma then_run_pair_Inl: "then_run (t, Inl e) m = (t, Inl e)"
  by (simp add: then_run_def bind_run_def)

lemma then_run_ret: "then_run m (ret ()) = m"
  by (cases m; cases "snd m") (auto simp: then_run_def bind_run_def ret_def)

lemma with_ctx_calls: "with_ctx a z (calls cs) = calls (a # cs @ [z])"
  by (simp add: with_ctx_def calls_def)

lemma fst_calls: "fst (calls cs) = cs" and snd_calls: "snd (calls cs) = Inr ()"
  and fst_raise: "fst (raise e) = []" and snd_raise: "snd (raise e) = Inl e"
  and fst_ret: "fst (ret x) = []" and snd_ret: "snd (ret x) = Inr x"
  by (simp_all add: calls_def raise_def ret_def)

lemmas run_simps = then_run_ret then_run_calls then_run_raise then_run_pair_Inr then_run_pair_Inl with_ctx_calls
  fst_calls snd_calls fst_raise snd_raise fst_ret snd_ret

lemma then_run_fst: "fst (then_run m n) = (case snd m of Inl e \<Rightarrow> fst m | Inr x \<Rightarrow> fst m @ fst n)"
  by (cases m; cases "snd m") (auto simp: then_run_def bind_run_def split: prod.splits)

lemma then_run_snd: "snd (then_run m n) = (case snd m of Inl e \<Rightarrow> Inl e | Inr x \<Rightarrow> snd n)"
  by (cases m; cases "snd m") (auto simp: then_run_def bind_run_def split: prod.splits)

lemma is_step_call_simps:
  "is_step_call DataCuda" "is_step_call TargetCuda" "is_step_call ZeroGrad"
  "is_step_call AutocastEnter" "is_step_call AutocastExit" "is_step_call ModelForward"
  "is_step_call Criterion" "is_step_call ScalerScale" "is_step_call Backward"
  "is_step_call OptimizerSynchronize" "is_step_call ScalerUnscale"
  "is_step_call SkipSynchronizeEnter" "is_step_call SkipSynchronizeExit"
  "is_step_call ScalerStep" "is_step_call ScalerUpdate" "is_step_call OptimizerStep"
  "\<not> is_step_call ModelTrain" "\<not> is_step_call ModelEval" "\<not> is_step_call (SamplerSetEpoch e)"
  "\<not> is_step_call PerfCounter" "\<not> is_step_call CudaSynchronize" "\<not> is_step_call LossItem"
  "\<not> is_step_call ScalerGetScale" "\<not> is_step_call (WandbLogTrain info st)"
  "\<not> is_step_call (PrintTrain line)" "\<not> is_step_call InferenceModeEnter"
  "\<not> is_step_call InferenceModeExit" "\<not> is_step_call TensorItem"
  "\<not> is_step_call (WandbLogTest tinfo)" "\<not> is_step_call (PrintTest ep l a1 a5)"
  by (simp_all add: is_step_call_def)

subsection \<open>The run of one batch\<close>

lemma mixed_precision_body_steps:
  "filter is_step_call (fst (train_mixed_precision_body ls ll e L uc w i b)) = mixed_precision_step uc"
  by (cases w; cases uc)
     (simp_all add: train_mixed_precision_body_def run_simps mixed_precision_step_def is_step_call_simps Let_def)

lemma full_precision_body_steps:
  "filter is_step_call (fst (train_epoch_body ls ll e L uc w i b)) = full_precision_step uc"
  by (cases w; cases uc)
     (simp_all add: train_epoch_body_def run_simps full_precision_step_def is_step_call_simps Let_def)

lemma bodies_end_alike:
  "snd (train_epoch_body ls ll e L uc w i b) = snd (train_mixed_precision_body ls ll e L uc w i b)"
  by (cases w; cases uc)
     (simp_all add: train_epoch_body_def train_mixed_precision_body_def run_simps Let_def)

lemma full_precision_step_eq:
  "full_precision_step uc = List.map_filter without_mixed_precision (mixed_precision_step uc)"
  by (simp add: full_precision_step_def mixed_precision_step_def List.map_filter_simps)

lemma full_precision_body_plain:
  "list_all (\<lambda>c. \<not> is_scaler_call c \<and> \<not> is_gradient_sync_call c)
     (fst (train_epoch_body ls ll e L uc w i b))"
  by (cases w; cases uc)
     (simp_all add: train_epoch_body_def run_simps is_scaler_call_def is_gradient_sync_call_def Let_def)

subsection \<open>The loop over the batches\<close>

lemma for_enumerate_filter:
  assumes "\<And>i b. filter P (fst (body i b)) = S"
  shows "\<exists>m\<le>length bs. filter P (fst (for_enumerate body i bs)) = concat (replicate m S)
           \<and> (snd (for_enumerate body i bs) = Inr () \<longrightarrow> m = length bs)"
proof (induction bs arbitrary: i)
  case Nil
  then show ?case by (simp add: ret_def)
next
  case (Cons b bs)
  show ?case
  proof (cases "snd (body i b)")
    case (Inl e)
    then have "filter P (fst (for_enumerate body i (b # bs))) = concat (replicate 1 S)"
      and "snd (for_enumerate body i (b # bs)) \<noteq> Inr ()"
      using assms by (simp_all add: then_run_fst then_run_snd)
    then show ?thesis by (intro exI[of _ 1]) simp
  next
    case (Inr u)
    from Cons.IH[of "Suc i"] obtain m where m: "m \<le> length bs"
      "filter P (fst (for_enumerate body (Suc i) bs)) = concat (replicate m S)"
      "snd (for_enumerate body (Suc i) bs) = Inr () \<longrightarrow> m = length bs" by blast
    have "filter P (fst (for_enumerate body i (b # bs))) = concat (replicate (Suc m) S)"
      using Inr assms m(2) by (simp add: then_run_fst)
    moreover have "snd (for_enumerate body i (b # bs)) = Inr () \<longrightarrow> Suc m = length (b # bs)"
      using Inr m(3) by (simp add: then_run_snd)
    ultimately show ?thesis using m(1) by (intro exI[of _ "Suc m"]) simp
  qed
qed

lemma map_filter_append: "List.map_filter d (xs @ ys) = List.map_filter d xs @ List.map_filter d ys"
  by (simp add: List.map_filter_def)

lemma for_enumerate_related:
  assumes "\<And>i b. snd (body1 i b) = snd (body2 i b)"
    and "\<And>i b. filter P (fst (body1 i b)) = List.map_filter d (filter P (fst (body2 i b)))"
  shows "filter P (fst (for_enumerate body1 i bs)) =
           List.map_filter d (filter P (fst (for_enumerate body2 i bs)))
         \<and> snd (for_enumerate body1 i bs) = snd (for_enumerate body2 i bs)"
proof (induction bs arbitrary: i)
  case Nil
  then show ?case by (simp add: ret_def List.map_filter_simps)
next
  case (Cons b bs)
  then show ?case
    using assms
    by (cases "snd (body2 i b)") (simp_all add: then_run_fst then_run_snd map_filter_append)
qed

lemma for_enumerate_all:
  assumes "\<And>i b. list_all Q (fst (body i b))"
  shows "list_all Q (fst (for_enumerate body i bs))"
proof (induction bs arbitrary: i)
  case Nil
  then show ?case by (simp add: ret_def)
next
  case (Cons b bs)
  then show ?case
    using assms by (cases "snd (body i b)") (simp_all add: then_run_fst)
qed

subsection \<open>The order of the calls of a training step\<close>

text \<open>
  Claim C1, as the code has it. In a run of \<open>train_mixed_precision\<close> the step calls are,
  batch after batch, the same sequence: the input tensors are moved to the accelerator
  first (only when \<open>use_cuda\<close> is set), then the gradients are zeroed, the forward pass and
  the loss run inside the automatic mixed-precision context, the loss is scaled, the
  backward pass runs, the gradients are synchronized and unscaled, the optimizer step is
  made through the scaler with synchronization skipped, and the scaler is updated last.
  The sequence is made once for every batch the loop reaches, and for every batch of the
  loader when the run ends without an exception.
\<close>

theorem train_mixed_precision_step_order:
  "\<exists>m\<le>length train_loader.
     filter is_step_call
       (fst (train_mixed_precision len_sampler train_loader epoch log_interval use_cuda wandb_run))
       = concat (replicate m (mixed_precision_step use_cuda))
     \<and> (snd (train_mixed_precision len_sampler train_loader epoch log_interval use_cuda wandb_run) = Inr ()
          \<longrightarrow> m = length train_loader)"
  using for_enumerate_filter [of is_step_call
      "train_mixed_precision_body len_sampler (length train_loader) epoch log_interval use_cuda wandb_run"
      "mixed_precision_step use_cuda" train_loader 0]
  by (simp add: train_mixed_precision_def run_simps is_step_call_simps mixed_precision_body_steps)

theorem train_mixed_precision_step_order_witness:
  "filter is_step_call (fst (train_mixed_precision 8
      [\<lparr>len_data = 4, loss_item = 1, step_time = 2, loss_scale = 8\<rparr>,
       \<lparr>len_data = 4, loss_item = 1, step_time = 2, loss_scale = 8\<rparr>] 1 1 True (None :: unit option)))
   = mixed_precision_step True @ mixed_precision_step True"
proof -
  let ?r = "train_mixed_precision 8
      [\<lparr>len_data = 4, loss_item = 1, step_time = 2, loss_scale = 8\<rparr>,
       \<lparr>len_data = 4, loss_item = 1, step_time = 2, loss_scale = 8\<rparr>] 1 1 True (None :: unit option)"
  have ok: "snd ?r = Inr ()"
    by (simp add: train_mixed_precision_def train_mixed_precision_body_def run_simps)
  from train_mixed_precision_step_order
    [of "[\<lparr>len_data = 4, loss_item = 1, step_time = 2, loss_scale = 8\<rparr>,
       \<lparr>len_data = 4, loss_item = 1, step_time = 2, loss_scale = 8\<rparr>]" 8 1 1 True "None :: unit option"]
  obtain m where m: "filter is_step_call (fst ?r) = concat (replicate m (mixed_precision_step True))"
    "snd ?r = Inr () \<longrightarrow> m = length
          [\<lparr>len_data = 4, loss_item = 1, step_time = 2, loss_scale = 8\<rparr>,
       \<lparr>len_data = 4, loss_item = 1, step_time = (2::real), loss_scale = 8\<rparr>]" by blast
  from m(2) ok have "m = Suc (Suc 0)" by simp
  with m(1) show ?thesis by simp
qed

text \<open>
  The order in which claim C1 is worded, with the gradients zeroed before the tensors are
  moved, is not the order of the calls: with \<open>use_cuda\<close> set, the worded sequence is not
  even a subsequence of the run of a single batch.
\<close>

theorem train_mixed_precision_zero_grad_first_counterexample:
  "\<not> subseq [ZeroGrad, DataCuda, TargetCuda, AutocastEnter, ModelForward, Criterion, AutocastExit,
       ScalerScale, Backward, OptimizerSynchronize, ScalerUnscale, ScalerStep, ScalerUpdate]
      (fst (train_mixed_precision 8
         [\<lparr>len_data = 4, loss_item = 1, step_time = 2, loss_scale = 8\<rparr>] 1 1 True (None :: unit option)))"
  by (simp add: train_mixed_precision_def train_mixed_precision_body_def run_simps list_emb_code)

subsection \<open>Runs that end without an exception\<close>

lemma for_enumerate_ok:
  assumes "\<And>j. j < length bs \<Longrightarrow> snd (body (i + j) (bs ! j)) = Inr ()"
  shows "for_enumerate body i bs = (concat (map (\<lambda>j. fst (body (i + j) (bs ! j))) [0..<length bs]), Inr ())"
  using assms
proof (induction bs arbitrary: i)
  case Nil
  then show ?case by (simp add: ret_def)
next
  case (Cons b bs)
  have hd_ok: "snd (body i b) = Inr ()"
    using Cons.prems [of 0] by simp
  have tl_ok: "snd (body (Suc i + j) (bs ! j)) = Inr ()" if "j < length bs" for j
    using Cons.prems [of "Suc j"] that by simp
  have "for_enumerate body (Suc i) bs =
      (concat (map (\<lambda>j. fst (body (Suc i + j) (bs ! j))) [0..<length bs]), Inr ())"
    using Cons.IH [of "Suc i"] tl_ok by blast
  moreover have "map (\<lambda>j. fst (body (i + j) ((b # bs) ! j))) [0..<length (b # bs)] =
      fst (body i b) # map (\<lambda>j. fst (body (Suc i + j) (bs ! j))) [0..<length bs]"
    by (simp add: upt_conv_Cons map_Suc_upt [symmetric] del: upt_Suc)
  ultimately show ?case
    using hd_ok by (cases "body i b") (simp add: then_run_pair_Inr del: upt_Suc)
qed

lemma wandb_train_infos_append:
  "wandb_train_infos (xs @ ys) = wandb_train_infos xs @ wandb_train_infos ys"
  by (induction xs rule: wandb_train_infos.induct) simp_all

lemma wandb_train_infos_concat:
  "wandb_train_infos (concat xss) = concat (map wandb_train_infos xss)"
  by (induction xss) (simp_all add: wandb_train_infos_append)

lemma mixed_precision_body_logs:
  assumes "L \<noteq> 0" "ll \<noteq> 0" "w = None \<or> step_time b \<noteq> 0"
  shows "snd (train_mixed_precision_body ls ll e L uc w i b) = Inr ()"
    and "list_ex is_print (fst (train_mixed_precision_body ls ll e L uc w i b)) \<longleftrightarrow> L dvd int i"
    and "list_ex is_wandb_log (fst (train_mixed_precision_body ls ll e L uc w i b)) \<longleftrightarrow> w \<noteq> None"
    and "map wb_train_samples_seen (wandb_train_infos (fst (train_mixed_precision_body ls ll e L uc w i b))) =
       (if w = None then [] else [((e - 1) * int ll + int i) * int (len_data b)])"
  using assms
  by (cases w; cases uc;
      simp add: train_mixed_precision_body_def run_simps Let_def mod_eq_0_iff_dvd)+

lemma full_precision_body_logs:
  assumes "L \<noteq> 0" "ll \<noteq> 0" "w = None \<or> step_time b \<noteq> 0"
  shows "snd (train_epoch_body ls ll e L uc w i b) = Inr ()"
    and "list_ex is_print (fst (train_epoch_body ls ll e L uc w i b)) \<longleftrightarrow> L dvd int i"
    and "list_ex is_wandb_log (fst (train_epoch_body ls ll e L uc w i b)) \<longleftrightarrow> w \<noteq> None"
    and "map wb_train_samples_seen (wandb_train_infos (fst (train_epoch_body ls ll e L uc w i b))) =
       (if w = None then [] else [((e - 1) * int ll + int i) * int (len_data b)])"
  using assms
  by (cases w; cases uc;
      simp add: train_epoch_body_def run_simps Let_def mod_eq_0_iff_dvd)+

lemma train_mixed_precision_ok:
  assumes "log_interval \<noteq> 0" "wandb_run = None \<or> (\<forall>b\<in>set train_loader. step_time b \<noteq> 0)"
  shows "train_mixed_precision len_sampler train_loader epoch log_interval use_cuda wandb_run =
     ([ModelTrain, SamplerSetEpoch epoch] @
      concat (map (\<lambda>i. fst (train_mixed_precision_body len_sampler (length train_loader) epoch
                     log_interval use_cuda wandb_run i (train_loader ! i))) [0..<length train_loader]),
      Inr ())"
proof -
  have "snd (train_mixed_precision_body len_sampler (length train_loader) epoch
                     log_interval use_cuda wandb_run (0 + j) (train_loader ! j)) = Inr ()"
    if "j < length train_loader" for j
    using that assms by (intro mixed_precision_body_logs(1)) auto
  from for_enumerate_ok [of train_loader "train_mixed_precision_body len_sampler (length train_loader) epoch
                     log_interval use_cuda wandb_run" 0, OF this] show ?thesis
    by (simp add: train_mixed_precision_def run_simps)
qed

lemma train_epoch_ok:
  assumes "log_interval \<noteq> 0" "wandb_run = None \<or> (\<forall>b\<in>set train_loader. step_time b \<noteq> 0)"
  shows "train_epoch len_sampler train_loader epoch log_interval use_cuda wandb_run =
     ([ModelTrain, SamplerSetEpoch epoch] @
      concat (map (\<lambda>i. fst (train_epoch_body len_sampler (length train_loader) epoch
                     log_interval use_cuda wandb_run i (train_loader ! i))) [0..<length train_loader]),
      Inr ())"
proof -
  have "snd (train_epoch_body len_sampler (length train_loader) epoch
                     log_interval use_cuda wandb_run (0 + j) (train_loader ! j)) = Inr ()"
    if "j < length train_loader" for j
    using that assms by (intro full_precision_body_logs(1)) auto
  from for_enumerate_ok [of train_loader "train_epoch_body len_sampler (length train_loader) epoch
                     log_interval use_cuda wandb_run" 0, OF this] show ?thesis
    by (simp add: train_epoch_def run_simps)
qed



text \<open>
  Claim C5, as the code has it. The step calls of \<open>train_epoch\<close> are those of
  \<open>train_mixed_precision\<close> on the same arguments with the mixed-precision context, the
  loss scaling and the gradient synchronization taken away and the optimizer stepped
  directly. A run of \<open>train_epoch\<close> makes no call on a scaler and no gradient
  synchronization call. For every batch it moves the tensors to the accelerator (only
  when \<open>use_cuda\<close> is set), then zeroes the gradients, runs the forward pass and the loss,
  runs the backward pass on the loss as it is, and steps the optimizer.
\<close>

theorem train_epoch_is_step_without_mixed_precision:
  "filter is_step_call (fst (train_epoch len_sampler train_loader epoch log_interval use_cuda wandb_run)) =
     List.map_filter without_mixed_precision
       (filter is_step_call
          (fst (train_mixed_precision len_sampler train_loader epoch log_interval use_cuda wandb_run)))
   \<and> list_all (\<lambda>c. \<not> is_scaler_call c \<and> \<not> is_gradient_sync_call c)
       (fst (train_epoch len_sampler train_loader epoch log_interval use_cuda wandb_run))
   \<and> (\<exists>m\<le>length train_loader.
        filter is_step_call (fst (train_epoch len_sampler train_loader epoch log_interval use_cuda wandb_run))
          = concat (replicate m (full_precision_step use_cuda))
        \<and> (snd (train_epoch len_sampler train_loader epoch log_interval use_cuda wandb_run) = Inr ()
             \<longrightarrow> m = length train_loader))"
proof -
  let ?fp = "train_epoch_body len_sampler (length train_loader) epoch log_interval use_cuda wandb_run"
  let ?mp = "train_mixed_precision_body len_sampler (length train_loader) epoch log_interval use_cuda wandb_run"
  have "filter is_step_call (fst (for_enumerate ?fp 0 train_loader)) =
        List.map_filter without_mixed_precision (filter is_step_call (fst (for_enumerate ?mp 0 train_loader)))"
    using for_enumerate_related [of ?fp ?mp is_step_call without_mixed_precision 0 train_loader]
    by (simp add: bodies_end_alike full_precision_body_steps mixed_precision_body_steps full_precision_step_eq)
  then have first: "filter is_step_call (fst (train_epoch len_sampler train_loader epoch log_interval use_cuda wandb_run)) =
     List.map_filter without_mixed_precision
       (filter is_step_call
          (fst (train_mixed_precision len_sampler train_loader epoch log_interval use_cuda wandb_run)))"
    by (simp add: train_epoch_def train_mixed_precision_def run_simps is_step_call_simps)
  have "list_all (\<lambda>c. \<not> is_scaler_call c \<and> \<not> is_gradient_sync_call c) (fst
      (for_enumerate ?fp 0 train_loader))"
    by (rule for_enumerate_all) (rule full_precision_body_plain)
  then have second: "list_all (\<lambda>c. \<not> is_scaler_call c \<and> \<not> is_gradient_sync_call c)
       (fst (train_epoch len_sampler train_loader epoch log_interval use_cuda wandb_run))"
    by (simp add: train_epoch_def run_simps is_scaler_call_def is_gradient_sync_call_def)
  have third: "\<exists>m\<le>length train_loader.
        filter is_step_call (fst (train_epoch len_sampler train_loader epoch log_interval use_cuda wandb_run))
          = concat (replicate m (full_precision_step use_cuda))
        \<and> (snd (train_epoch len_sampler train_loader epoch log_interval use_cuda wandb_run) = Inr ()
             \<longrightarrow> m = length train_loader)"
    using for_enumerate_filter [of is_step_call ?fp "full_precision_step use_cuda" train_loader 0]
    by (simp add: train_epoch_def run_simps is_step_call_simps full_precision_body_steps)
  from first second third show ?thesis by blast
qed

theorem train_epoch_is_step_without_mixed_precision_witness:
  "filter is_step_call (fst (train_epoch 8
        [\<lparr>len_data = 4, loss_item = 1, step_time = 2, loss_scale = 8\<rparr>,
         \<lparr>len_data = 4, loss_item = 1, step_time = 2, loss_scale = 8\<rparr>]
        1 1 True (None :: unit option)))
   = full_precision_step True @ full_precision_step True"
proof -
  let ?r = "train_epoch 8
        [\<lparr>len_data = 4, loss_item = 1, step_time = 2, loss_scale = 8\<rparr>,
         \<lparr>len_data = 4, loss_item = 1, step_time = 2, loss_scale = 8\<rparr>]
        1 1 True (None :: unit option)"
  have ok: "snd ?r = Inr ()"
    by (simp add: train_epoch_def train_epoch_body_def run_simps)
  from train_epoch_is_step_without_mixed_precision [of 8 "
        [\<lparr>len_data = 4, loss_item = 1, step_time = 2, loss_scale = 8\<rparr>,
         \<lparr>len_data = 4, loss_item = 1, step_time = 2, loss_scale = 8\<rparr>]"
        1 1 True "None :: unit option"]
  obtain m where m: "filter is_step_call (fst ?r) = concat (replicate m (full_precision_step True))"
    "snd ?r = Inr () \<longrightarrow> m = length
          [\<lparr>len_data = 4, loss_item = 1, step_time = 2, loss_scale = 8\<rparr>,
           \<lparr>len_data = 4, loss_item = 1, step_time = 2, loss_scale = 8\<rparr>]"
          by blast
  from m(2) ok have "m = Suc (Suc 0)" by simp
  with m(1) show ?thesis by simp
qed

text \<open>
  The sequence as claim C5 words it, with the gradients zeroed before the tensors are
  moved, is not a subsequence of the run of a single batch when \<open>use_cuda\<close> is set.
\<close>

theorem train_epoch_zero_grad_first_counterexample:
  "\<not> subseq [ZeroGrad, DataCuda, TargetCuda, ModelForward, Criterion, Backward, OptimizerStep]
      (fst (train_epoch 8
            [\<lparr>len_data = 4, loss_item = 1, step_time = 2, loss_scale = 8\<rparr>]
            1 1 True (None :: unit option)))"
  by (simp add: train_epoch_def train_epoch_body_def run_simps list_emb_code)

subsection \<open>Logging\<close>

text \<open>
  Claim C6, as the code has it. When \<open>log_interval\<close> is not zero (and no measured step time
  is zero when a dashboard run is supplied), a run of either training procedure is the
  two calls before the loop followed by the runs of its batches, and for every batch: a
  console line is printed exactly when the batch index is a multiple of \<open>log_interval\<close>,
  and a dashboard record is emitted exactly when a dashboard run is supplied, that is for
  every batch and not at the interval of the console line.
\<close>

theorem training_log_cadence:
  assumes "log_interval \<noteq> 0"
    and "wandb_run = None \<or> (\<forall>b\<in>set train_loader. step_time b \<noteq> 0)"
  shows
   "train_mixed_precision len_sampler train_loader epoch log_interval use_cuda wandb_run =
      ([ModelTrain, SamplerSetEpoch epoch] @
       concat (map (\<lambda>i. fst (train_mixed_precision_body len_sampler (length train_loader) epoch
                      log_interval use_cuda wandb_run i (train_loader ! i))) [0..<length train_loader]),
       Inr ())
    \<and> train_epoch len_sampler train_loader epoch log_interval use_cuda wandb_run =
      ([ModelTrain, SamplerSetEpoch epoch] @
       concat (map (\<lambda>i. fst (train_epoch_body len_sampler (length train_loader) epoch
                      log_interval use_cuda wandb_run i (train_loader ! i))) [0..<length train_loader]),
       Inr ())
    \<and> (\<forall>i<length train_loader.
         (list_ex is_print (fst (train_mixed_precision_body len_sampler (length train_loader) epoch
              log_interval use_cuda wandb_run i (train_loader ! i))) \<longleftrightarrow> log_interval dvd int i)
       \<and> (list_ex is_wandb_log (fst (train_mixed_precision_body len_sampler (length train_loader) epoch
              log_interval use_cuda wandb_run i (train_loader ! i))) \<longleftrightarrow> wandb_run \<noteq> None)
       \<and> (list_ex is_print (fst (train_epoch_body len_sampler (length train_loader) epoch
              log_interval use_cuda wandb_run i (train_loader ! i))) \<longleftrightarrow> log_interval dvd int i)
       \<and> (list_ex is_wandb_log (fst (train_epoch_body len_sampler (length train_loader) epoch
              log_interval use_cuda wandb_run i (train_loader ! i))) \<longleftrightarrow> wandb_run \<noteq> None))"
proof -
  have each: "length train_loader \<noteq> 0 \<and> (wandb_run = None \<or> step_time (train_loader ! i) \<noteq> 0)"
    if "i < length train_loader" for i
    using that assms(2) by auto
  show ?thesis
    using assms each
    by (simp add: train_mixed_precision_ok train_epoch_ok mixed_precision_body_logs full_precision_body_logs)
qed

theorem training_log_cadence_witness:
  "(2::int) \<noteq> 0
   \<and> list_ex is_print (fst (train_mixed_precision_body 8 3 1 2 False (Some ()) 2 \<lparr>len_data = 4,
       loss_item = 1, step_time = 2, loss_scale = 8\<rparr>))
   \<and> \<not> list_ex is_print (fst (train_epoch_body 8 3 1 2 False (Some ()) 1 \<lparr>len_data = 4,
       loss_item = 1, step_time = 2, loss_scale = 8\<rparr>))
   \<and> list_ex is_wandb_log (fst (train_epoch_body 8 3 1 2 False (Some ()) 1 \<lparr>len_data = 4,
       loss_item = 1, step_time = 2, loss_scale = 8\<rparr>))"
proof -
  have h1: "(2::int) \<noteq> 0" by simp
  have h2: "Some () = None \<or> (\<forall>b\<in>set
        [\<lparr>len_data = 4, loss_item = 1, step_time = 2, loss_scale = 8\<rparr>,
         \<lparr>len_data = 4, loss_item = 1, step_time = 2, loss_scale = 8\<rparr>,
         \<lparr>len_data = 4, loss_item = 1, step_time = 2, loss_scale = 8\<rparr>]. step_time b \<noteq>
             0)" by simp
  note each = training_log_cadence [OF h1 h2, of 8 1 False, THEN conjunct2, THEN conjunct2, rule_format]
  have i1: "1 < length
        [\<lparr>len_data = 4, loss_item = 1, step_time = 2, loss_scale = 8\<rparr>,
         \<lparr>len_data = 4, loss_item = 1, step_time = 2, loss_scale = 8\<rparr>,
         \<lparr>len_data = 4, loss_item = 1, step_time = 2, loss_scale = 8\<rparr>]"
    and i2: "2 < length
          [\<lparr>len_data = 4, loss_item = 1, step_time = 2, loss_scale = 8\<rparr>,
           \<lparr>len_data = 4, loss_item = 1, step_time = 2, loss_scale = 8\<rparr>,
           \<lparr>len_data = 4, loss_item = 1, step_time = 2, loss_scale = 8\<rparr>]"
          by simp_all
  from each [OF i1] each [OF i2] show ?thesis by (simp add: numeral_3_eq_3)
qed

text \<open>
  The dashboard records are not emitted at the interval of the console lines, as claim C6
  has it: with two batches and \<open>log_interval = 2\<close> one line is printed and two records are
  emitted.
\<close>

theorem dashboard_log_same_interval_counterexample:
  "length (filter is_wandb_log (fst (train_mixed_precision 8
        [\<lparr>len_data = 4, loss_item = 1, step_time = 2, loss_scale = 8\<rparr>,
         \<lparr>len_data = 4, loss_item = 1, step_time = 2, loss_scale = 8\<rparr>]
        1 2 False (Some ()))))
   \<noteq> length (filter is_print (fst (train_mixed_precision 8
         [\<lparr>len_data = 4, loss_item = 1, step_time = 2, loss_scale = 8\<rparr>,
          \<lparr>len_data = 4, loss_item = 1, step_time = 2, loss_scale = 8\<rparr>]
         1 2 False (Some ()))))"
  by (simp add: train_mixed_precision_def train_mixed_precision_body_def run_simps)

text \<open>
  Claim C10. When a dashboard run is supplied, the values logged as \<open>train/samples_seen\<close> by
  either training procedure are, batch by batch, \<open>global_step\<close> times the size of that
  batch, where \<open>global_step = (epoch - 1) * len(train_loader) + batch_idx\<close>. The value
  depends on the size of the current batch only: it is no running total of the examples
  processed.
\<close>

theorem samples_seen_is_step_times_batch_size:
  assumes "log_interval \<noteq> 0" and "\<forall>b\<in>set train_loader. step_time b \<noteq> 0"
  shows
   "map wb_train_samples_seen (wandb_train_infos
      (fst (train_mixed_precision len_sampler train_loader epoch log_interval use_cuda (Some r)))) =
    map (\<lambda>i. ((epoch - 1) * int (length train_loader) + int i) * int (len_data (train_loader ! i)))
      [0..<length train_loader]
    \<and> map wb_train_samples_seen (wandb_train_infos
      (fst (train_epoch len_sampler train_loader epoch log_interval use_cuda (Some r)))) =
    map (\<lambda>i. ((epoch - 1) * int (length train_loader) + int i) * int (len_data (train_loader ! i)))
      [0..<length train_loader]"
proof -
  have each: "length train_loader \<noteq> 0 \<and> step_time (train_loader ! i) \<noteq> 0"
    if "i < length train_loader" for i
    using that assms(2) by auto
  have "concat (map (\<lambda>i. map wb_train_samples_seen (wandb_train_infos
          (fst (train_mixed_precision_body len_sampler (length train_loader) epoch
                 log_interval use_cuda (Some r) i (train_loader ! i))))) [0..<length train_loader]) =
        concat (map (\<lambda>i. [((epoch - 1) * int (length train_loader) + int i) * int (len_data (train_loader ! i))])
          [0..<length train_loader])"
    using assms(1) each by (intro arg_cong [where f = concat] map_cong refl) (simp add: mixed_precision_body_logs)
  moreover have "concat (map (\<lambda>i. map wb_train_samples_seen (wandb_train_infos
          (fst (train_epoch_body len_sampler (length train_loader) epoch
                 log_interval use_cuda (Some r) i (train_loader ! i))))) [0..<length train_loader]) =
        concat (map (\<lambda>i. [((epoch - 1) * int (length train_loader) + int i) * int (len_data (train_loader ! i))])
          [0..<length train_loader])"
    using assms(1) each by (intro arg_cong [where f = concat] map_cong refl) (simp add: full_precision_body_logs)
  ultimately show ?thesis
    using assms
    by (simp add: train_mixed_precision_ok train_epoch_ok wandb_train_infos_append
        wandb_train_infos_concat map_concat comp_def concat_map_singleton del: upt_Suc)
qed

theorem samples_seen_is_step_times_batch_size_witness:
  "map wb_train_samples_seen (wandb_train_infos
      (fst (train_mixed_precision 10
            [\<lparr>len_data = 4, loss_item = 1, step_time = 2, loss_scale = 8\<rparr>,
             \<lparr>len_data = 4, loss_item = 1, step_time = 2, loss_scale = 8\<rparr>,
             \<lparr>len_data = 2, loss_item = 1, step_time = 2, loss_scale = 8\<rparr>]
            2 1 False (Some ())))) = [12, 16, 10]
   \<and> map wb_train_samples_seen (wandb_train_infos
      (fst (train_epoch 10
            [\<lparr>len_data = 4, loss_item = 1, step_time = 2, loss_scale = 8\<rparr>,
             \<lparr>len_data = 4, loss_item = 1, step_time = 2, loss_scale = 8\<rparr>,
             \<lparr>len_data = 2, loss_item = 1, step_time = 2, loss_scale = 8\<rparr>]
            2 1 False (Some ())))) = [12, 16, 10]"
proof -
  have h1: "(1::int) \<noteq> 0" by simp
  have h2: "\<forall>b\<in>set
        [\<lparr>len_data = 4, loss_item = 1, step_time = 2, loss_scale = 8\<rparr>,
         \<lparr>len_data = 4, loss_item = 1, step_time = 2, loss_scale = 8\<rparr>,
         \<lparr>len_data = 2, loss_item = 1, step_time = 2, loss_scale = 8\<rparr>]. step_time b \<noteq>
             0" by simp
  from samples_seen_is_step_times_batch_size [OF h1 h2, of 10 2 False "()"] show ?thesis by (simp add: nth_Cons')
qed

subsection \<open>The evaluation pass\<close>

text \<open>One pass of the loop of \<open>test\<close>, written out.\<close>

lemma test_loop_Cons:
  "test_loop topk_indices use_cuda (b # bs) (test_loss, acc1, acc5) =
     (case accuracy topk_indices (tb_output b) (tb_target b) [1, 5] of
        Inl e \<Rightarrow>
          ((if use_cuda then [DataCuda, TargetCuda] else []) @
           [ModelForward, Criterion, LossItem, InferenceModeEnter, InferenceModeExit], Inl e)
      | Inr [batch_acc1, batch_acc5] \<Rightarrow>
          ((if use_cuda then [DataCuda, TargetCuda] else []) @
           [ModelForward, Criterion, LossItem, InferenceModeEnter, InferenceModeExit,
            TensorItem, TensorItem] @
           fst (test_loop topk_indices use_cuda bs (test_loss + tb_loss b, acc1 + batch_acc1, acc5 + batch_acc5)),
           snd (test_loop topk_indices use_cuda bs (test_loss + tb_loss b, acc1 + batch_acc1, acc5 + batch_acc5)))
      | Inr _ \<Rightarrow>
          ((if use_cuda then [DataCuda, TargetCuda] else []) @
           [ModelForward, Criterion, LossItem, InferenceModeEnter, InferenceModeExit], Inl ValueError))"
  by (cases use_cuda)
     (simp_all add: run_simps bind_run_def with_ctx_def lift_result_def raise_def
           split: sum.splits list.splits)

lemma test_loop_eval_calls:
  "list_all is_eval_call (fst (test_loop topk_indices use_cuda bs acc))"
proof (induction bs arbitrary: acc)
  case Nil
  then show ?case by (simp add: ret_def)
next
  case (Cons b bs)
  obtain l a1 a5 where acc: "acc = (l, a1, a5)" by (cases acc) auto
  show ?case
    unfolding acc test_loop_Cons using Cons.IH
    by (cases use_cuda) (simp_all add: is_eval_call_def split: sum.splits list.splits)
qed

lemma test_loop_inside:
  "outside_inference_mode (Suc d) (fst (test_loop topk_indices use_cuda bs acc) @ rest) =
   outside_inference_mode (Suc d) rest"
proof (induction bs arbitrary: acc)
  case Nil
  then show ?case by (simp add: ret_def)
next
  case (Cons b bs)
  obtain l a1 a5 where acc: "acc = (l, a1, a5)" by (cases acc) auto
  show ?case
    unfolding acc test_loop_Cons using Cons.IH
    by (cases use_cuda) (simp_all split: sum.splits list.splits)
qed

lemma test_loop_sums:
  assumes "list_all2 (\<lambda>b r. accuracy topk_indices (tb_output b) (tb_target b) [1, 5] = Inr [fst r, snd r]) bs accs"
  shows "snd (test_loop topk_indices use_cuda bs (l, a1, a5)) =
     Inr (l + sum_list (map tb_loss bs), a1 + sum_list (map fst accs), a5 + sum_list (map snd accs))"
  using assms
proof (induction bs accs arbitrary: l a1 a5 rule: list_all2_induct)
  case Nil
  then show ?case by (simp add: ret_def)
next
  case (Cons b bs r accs)
  then show ?case by (simp add: test_loop_Cons add.assoc del: test_loop.simps)
qed

lemma bind_run_calls: "bind_run (calls cs) f = (cs @ fst (f ()), snd (f ()))"
  by (simp add: bind_run_def calls_def split: prod.splits)

lemma bind_run_pair_Inl: "bind_run (t, Inl e) f = (t, Inl e)"
  by (simp add: bind_run_def)

lemma bind_run_pair_Inr: "bind_run (t, Inr x) f = (t @ fst (f x), snd (f x))"
  by (simp add: bind_run_def split: prod.splits)

lemma test_unfold:
  "test topk_indices len_sampler test_loader use_cuda epoch wandb_run =
     (let loop = test_loop topk_indices use_cuda test_loader (0, 0, 0);
          inner = ModelEval # InferenceModeEnter # fst loop @ [InferenceModeExit]
      in case snd loop of
           Inl err \<Rightarrow> (inner, Inl err)
         | Inr (test_loss, acc1, acc5) \<Rightarrow>
             if len_sampler = 0 then (inner, Inl ZeroDivisionError)
             else (inner @
                   (case wandb_run of
                      None \<Rightarrow> []
                    | Some r \<Rightarrow> [WandbLogTest
                        \<lparr>wb_test_loss = test_loss / real len_sampler,
                         wb_test_epoch = epoch,
                         wb_test_acc1 = acc1 / real len_sampler,
                         wb_test_acc5 = acc5 / real len_sampler\<rparr>]) @
                   [PrintTest epoch (test_loss / real len_sampler) (acc1 / real len_sampler)
                      (acc5 / real len_sampler)],
                   Inr ()))"
proof -
  obtain t r where loop: "test_loop topk_indices use_cuda test_loader (0, 0, 0) = (t, r)"
    by (cases "test_loop topk_indices use_cuda test_loader (0, 0, 0)")
  show ?thesis
  proof (cases r)
    case (Inl err)
    then show ?thesis
      by (simp add: test_def loop bind_run_calls bind_run_pair_Inl with_ctx_def)
  next
    case (Inr acc)
    obtain l a1 a5 where acc: "acc = (l, a1, a5)" by (cases acc) auto
    show ?thesis
      by (cases wandb_run)
         (simp_all add: test_def loop Inr acc bind_run_calls bind_run_pair_Inr with_ctx_def
            run_simps Let_def)
  qed
qed

lemma fold_unobserved:
  assumes "\<And>c s. \<not> changes_training_state c \<Longrightarrow> observe (effect c s) = observe s"
    and "list_all (\<lambda>c. \<not> changes_training_state c) cs"
  shows "observe (fold effect cs s) = observe s"
  using assms(2)
proof (induction cs arbitrary: s)
  case Nil
  then show ?case by simp
next
  case (Cons c cs)
  then show ?case using assms(1) by simp
qed

lemma eval_call_harmless: "is_eval_call c \<Longrightarrow> \<not> changes_training_state c"
  by (auto simp: is_eval_call_def changes_training_state_def)

lemma test_loop_harmless:
  "list_all (\<lambda>c. \<not> changes_training_state c) (fst (test_loop topk_indices use_cuda bs acc))"
  using test_loop_eval_calls [of topk_indices use_cuda bs acc]
  by (simp add: list_all_iff eval_call_harmless)

lemma test_calls:
  "\<exists>reports.
     fst (test topk_indices len_sampler test_loader use_cuda epoch wandb_run) =
       ModelEval # InferenceModeEnter # fst (test_loop topk_indices use_cuda test_loader (0, 0, 0)) @
       InferenceModeExit # reports
     \<and> list_all (\<lambda>c. is_wandb_log c \<or> is_print c) reports"
proof -
  obtain t r where loop: "test_loop topk_indices use_cuda test_loader (0, 0, 0) = (t, r)"
    by (cases "test_loop topk_indices use_cuda test_loader (0, 0, 0)")
  show ?thesis
  proof (cases r)
    case (Inl err)
    then have "fst (test topk_indices len_sampler test_loader use_cuda epoch wandb_run) =
        ModelEval # InferenceModeEnter # t @ InferenceModeExit # []"
      by (simp add: test_unfold loop)
    then show ?thesis unfolding loop fst_conv by (intro exI [of _ "[]"]) simp
  next
    case (Inr acc)
    obtain l a1 a5 where acc: "acc = (l, a1, a5)" by (cases acc) auto
    show ?thesis
    proof (cases "len_sampler = 0")
      case True
      then have "fst (test topk_indices len_sampler test_loader use_cuda epoch wandb_run) =
          ModelEval # InferenceModeEnter # t @ InferenceModeExit # []"
        by (simp add: test_unfold loop Inr acc)
      then show ?thesis unfolding loop fst_conv by (intro exI [of _ "[]"]) simp
    next
      case False
      let ?reports = "(case wandb_run of
                      None \<Rightarrow> []
                    | Some r \<Rightarrow> [WandbLogTest
                        \<lparr>wb_test_loss = l / real len_sampler,
                         wb_test_epoch = epoch,
                         wb_test_acc1 = a1 / real len_sampler,
                         wb_test_acc5 = a5 / real len_sampler\<rparr>]) @
                   [PrintTest epoch (l / real len_sampler) (a1 / real len_sampler)
                      (a5 / real len_sampler)]"
      from False have "fst (test topk_indices len_sampler test_loader use_cuda epoch wandb_run) =
          ModelEval # InferenceModeEnter # t @ InferenceModeExit # ?reports"
        by (simp add: test_unfold loop Inr acc)
      moreover have "list_all (\<lambda>c. is_wandb_log c \<or> is_print c) ?reports"
        by (cases wandb_run) simp_all
      ultimately show ?thesis unfolding loop fst_conv by (intro exI [of _ ?reports]) simp
    qed
  qed
qed

lemma test_harmless:
  "list_all (\<lambda>c. \<not> changes_training_state c) (fst (test topk_indices len_sampler test_loader
      use_cuda epoch wandb_run))"
proof -
  from test_calls [of topk_indices len_sampler test_loader use_cuda epoch wandb_run]
  obtain reports where t: "fst (test topk_indices len_sampler test_loader use_cuda epoch wandb_run) =
       ModelEval # InferenceModeEnter # fst (test_loop topk_indices use_cuda test_loader (0, 0, 0)) @
       InferenceModeExit # reports"
    and r: "list_all (\<lambda>c. is_wandb_log c \<or> is_print c) reports" by blast
  have "\<not> changes_training_state c" if "is_wandb_log c \<or> is_print c" for c
    using that by (cases c) (simp_all add: changes_training_state_def)
  with r have "list_all (\<lambda>c. \<not> changes_training_state c) reports"
    by (simp add: list_all_iff)
  then show ?thesis
    unfolding t using test_loop_harmless [of topk_indices use_cuda test_loader "(0, 0, 0)"]
    by (simp add: changes_training_state_def)
qed

lemma outside_reports:
  "list_all (\<lambda>c. is_wandb_log c \<or> is_print c) cs \<Longrightarrow> outside_inference_mode 0 cs = cs"
proof (induction cs)
  case Nil
  then show ?case by simp
next
  case (Cons c cs)
  then show ?case by (cases c) simp_all
qed

lemma test_outside:
  "list_all (\<lambda>c. c = ModelEval \<or> is_wandb_log c \<or> is_print c)
     (outside_inference_mode 0 (fst (test topk_indices len_sampler test_loader use_cuda epoch wandb_run)))"
proof -
  from test_calls [of topk_indices len_sampler test_loader use_cuda epoch wandb_run]
  obtain reports where t: "fst (test topk_indices len_sampler test_loader use_cuda epoch wandb_run) =
       ModelEval # InferenceModeEnter # fst (test_loop topk_indices use_cuda test_loader (0, 0, 0)) @
       InferenceModeExit # reports"
    and r: "list_all (\<lambda>c. is_wandb_log c \<or> is_print c) reports" by blast
  have "outside_inference_mode 0 (fst (test topk_indices len_sampler test_loader use_cuda epoch wandb_run)) =
      ModelEval # outside_inference_mode 0 reports"
    unfolding t by (simp add: test_loop_inside)
  also have "\<dots> = ModelEval # reports"
    using outside_reports [OF r] by simp
  finally show ?thesis
    using r by (simp add: list_all_iff)
qed

lemma test_loop_quiet:
  "filter (\<lambda>c. is_wandb_log c \<or> is_print c) (fst (test_loop topk_indices use_cuda bs acc)) = []"
proof -
  have "\<not> (is_wandb_log c \<or> is_print c)" if "is_eval_call c" for c
    using that by (cases c) (simp_all add: is_eval_call_def)
  with test_loop_eval_calls [of topk_indices use_cuda bs acc] show ?thesis
    by (simp add: filter_empty_conv list_all_iff)
qed

lemmas accuracy_eval = accuracy_def tensor_topk_def example_topk_def argsort_desc_def
  ranks_before_def tensor_t_def eq_broadcast_def sum_first_rows_def max_dim1_indices_def
  upt_conv_Cons

lemmas test_eval = run_simps bind_run_calls bind_run_pair_Inl bind_run_pair_Inr with_ctx_def
  lift_result_def

lemma model_training_after_untouched:
  "list_all (\<lambda>c. c \<noteq> ModelTrain \<and> c \<noteq> ModelEval) cs \<Longrightarrow>
      model_training_after m cs = m"
proof (induction cs)
  case Nil
  then show ?case by simp
next
  case (Cons c cs)
  then show ?case by (cases c) simp_all
qed

lemma test_leaves_evaluation_mode:
  "\<not> model_training_after m (fst (test topk_indices len_sampler test_loader use_cuda epoch wandb_run))"
proof -
  from test_calls [of topk_indices len_sampler test_loader use_cuda epoch wandb_run]
  obtain reports where t: "fst (test topk_indices len_sampler test_loader use_cuda epoch wandb_run) =
       ModelEval # InferenceModeEnter # fst (test_loop topk_indices use_cuda test_loader (0, 0, 0)) @
       InferenceModeExit # reports"
    and r: "list_all (\<lambda>c. is_wandb_log c \<or> is_print c) reports" by blast
  have "c \<noteq> ModelTrain \<and> c \<noteq> ModelEval" if "is_wandb_log c \<or> is_print c" for c
    using that by (cases c) simp_all
  with r have reports: "list_all (\<lambda>c. c \<noteq> ModelTrain \<and> c \<noteq> ModelEval) reports"
    by (simp add: list_all_iff)
  have "c \<noteq> ModelTrain \<and> c \<noteq> ModelEval" if "is_eval_call c" for c
    using that by (cases c) (simp_all add: is_eval_call_def)
  with test_loop_eval_calls [of topk_indices use_cuda test_loader "(0, 0, 0)"]
  have loop: "list_all (\<lambda>c. c \<noteq> ModelTrain \<and> c \<noteq> ModelEval)
      (fst (test_loop topk_indices use_cuda test_loader (0, 0, 0)))"
    by (simp add: list_all_iff)
  have "list_all (\<lambda>c. c \<noteq> ModelTrain \<and> c \<noteq> ModelEval)
      (InferenceModeEnter # fst (test_loop topk_indices use_cuda test_loader (0, 0, 0)) @
       InferenceModeExit # reports)"
    using loop reports by simp
  then show ?thesis
    unfolding t by (simp add: model_training_after_untouched)
qed

text \<open>
  Claim C8, as the code has it. A run of \<open>test\<close> makes no backward pass, no optimizer step
  and no other call that writes gradients, weights, optimizer state or scaler state;
  therefore whatever is observed of the framework's state and is left alone by the other
  calls (the model's parameters and the optimizer's state) is the same after the run as
  before it. Outside the inference-mode block \<open>test\<close> only switches the model to evaluation
  mode, logs to the dashboard and prints: all forward passes run with gradient tracking
  disabled. The switch is an effect besides the metrics, the dashboard record and the
  console line: whatever mode the model was in before, it is in evaluation mode after
  the run.
\<close>

theorem test_changes_no_training_state:
  assumes "\<And>c s. \<not> changes_training_state c \<Longrightarrow> observe (effect c s) = observe s"
  shows "observe (fold effect
            (fst (test topk_indices len_sampler test_loader use_cuda epoch wandb_run)) s) = observe s
     \<and> list_all (\<lambda>c. \<not> changes_training_state c)
         (fst (test topk_indices len_sampler test_loader use_cuda epoch wandb_run))
     \<and> list_all (\<lambda>c. c = ModelEval \<or> is_wandb_log c \<or> is_print c)
         (outside_inference_mode 0
            (fst (test topk_indices len_sampler test_loader use_cuda epoch wandb_run)))
     \<and> \<not> model_training_after m
           (fst (test topk_indices len_sampler test_loader use_cuda epoch wandb_run))"
proof (intro conjI)
  show "observe (fold effect
            (fst (test topk_indices len_sampler test_loader use_cuda epoch wandb_run)) s) = observe s"
    using assms test_harmless by (rule fold_unobserved)
qed (rule test_harmless, rule test_outside, rule test_leaves_evaluation_mode)

theorem test_changes_no_training_state_witness:
  "fold (\<lambda>c n. if changes_training_state c then Suc n else n)
     (fst (test example_topk 3
         [\<lparr>tb_output = \<lparr>ncols = 5, rows = [[1, 9, 3, 7, 5], [2, 6, 4, 8, 0], [5, 4, 3, 2, 1]]\<rparr>,
          tb_target = Labels [1, 2, 4], tb_loss = 1 / 2\<rparr>]
         True 1 (Some ()))) (0::nat) = 0"
proof -
  have h: "\<not> changes_training_state c \<Longrightarrow>
      id ((\<lambda>c n. if changes_training_state c then Suc n else n) c s) = id s" for c and s :: nat
    by simp
  from test_changes_no_training_state
    [of id "\<lambda>c n. if changes_training_state c then Suc n else n", OF h, THEN conjunct1]
  show ?thesis by simp
qed

text \<open>
  The run of \<open>test\<close> has an effect that claim C8 does not list: a model that is in training
  mode before the run is not in training mode after it.
\<close>

theorem test_leaves_training_mode_counterexample:
  "\<not> model_training_after True
      (fst (test example_topk 3
         [\<lparr>tb_output = \<lparr>ncols = 5, rows = [[1, 9, 3, 7, 5], [2, 6, 4, 8, 0], [5, 4, 3, 2, 1]]\<rparr>,
          tb_target = Labels [1, 2, 4], tb_loss = 1 / 2\<rparr>]
         True 1 (Some ())))"
  by (simp add: test_def test_eval accuracy_eval Let_def)

text \<open>
  Claim C3. When \<open>accuracy\<close> returns a top-1 and a top-5 value for every batch of the test
  loader and \<open>len(test_sampler)\<close> is not zero, \<open>test\<close> ends without an exception and the three
  quantities it reports, to the dashboard (when a run is supplied) and to the console, are
  the sum of the batch losses, the sum of the batch top-1 values and the sum of the batch
  top-5 values, each divided by \<open>len(test_sampler)\<close>.
\<close>

theorem test_reports_sums_over_shard_size:
  assumes "len_sampler \<noteq> 0"
    and "list_all2 (\<lambda>b r. accuracy topk_indices (tb_output b) (tb_target b) [1, 5] = Inr [fst r, snd r])
           test_loader accs"
  shows "snd (test topk_indices len_sampler test_loader use_cuda epoch wandb_run) = Inr ()
     \<and> filter (\<lambda>c. is_wandb_log c \<or> is_print c)
         (fst (test topk_indices len_sampler test_loader use_cuda epoch wandb_run)) =
       (case wandb_run of
          None \<Rightarrow> []
        | Some r \<Rightarrow> [WandbLogTest
            \<lparr>wb_test_loss = sum_list (map tb_loss test_loader) / real len_sampler,
             wb_test_epoch = epoch,
             wb_test_acc1 = sum_list (map fst accs) / real len_sampler,
             wb_test_acc5 = sum_list (map snd accs) / real len_sampler\<rparr>]) @
       [PrintTest epoch
          (sum_list (map tb_loss test_loader) / real len_sampler)
          (sum_list (map fst accs) / real len_sampler)
          (sum_list (map snd accs) / real len_sampler)]"
proof -
  obtain t r where loop: "test_loop topk_indices use_cuda test_loader (0, 0, 0) = (t, r)"
    by (cases "test_loop topk_indices use_cuda test_loader (0, 0, 0)")
  from test_loop_sums [OF assms(2), of use_cuda 0 0 0]
  have r: "r = Inr (sum_list (map tb_loss test_loader), sum_list (map fst accs), sum_list (map snd accs))"
    by (simp add: loop)
  have quiet: "filter (\<lambda>c. is_wandb_log c \<or> is_print c) t = []"
    using test_loop_quiet [of topk_indices use_cuda test_loader "(0, 0, 0)"] by (simp add: loop)
  show ?thesis
    using assms(1) by (cases wandb_run) (simp_all add: test_unfold loop r quiet)
qed

theorem test_reports_sums_over_shard_size_witness:
  "filter (\<lambda>c. is_wandb_log c \<or> is_print c)
     (fst (test example_topk 4
         [\<lparr>tb_output = \<lparr>ncols = 5, rows = [[1, 9, 3, 7, 5], [2, 6, 4, 8, 0], [5, 4, 3, 2, 1]]\<rparr>,
          tb_target = Labels [1, 2, 4], tb_loss = 1 / 2\<rparr>,
          \<lparr>tb_output = \<lparr>ncols = 5, rows = [[0, 1, 2, 3, 4]]\<rparr>,
          tb_target = Labels [4], tb_loss = 3 / 2\<rparr>]
         False 1 (Some ()))) =
     [WandbLogTest
        \<lparr>wb_test_loss = 1 / 2, wb_test_epoch = 1, wb_test_acc1 = 100 / 3, wb_test_acc5 = 50\<rparr>,
      PrintTest 1 (1 / 2) (100 / 3) 50]"
proof -
  have h1: "(4::nat) \<noteq> 0" by simp
  have h2: "list_all2
      (\<lambda>b r. accuracy example_topk (tb_output b) (tb_target b) [1, 5] = Inr [fst r, snd r])
         [\<lparr>tb_output = \<lparr>ncols = 5, rows = [[1, 9, 3, 7, 5], [2, 6, 4, 8, 0], [5, 4, 3, 2, 1]]\<rparr>,
          tb_target = Labels [1, 2, 4], tb_loss = 1 / 2\<rparr>,
          \<lparr>tb_output = \<lparr>ncols = 5, rows = [[0, 1, 2, 3, 4]]\<rparr>,
          tb_target = Labels [4], tb_loss = 3 / 2\<rparr>]
         [(100 / 3, 100), (100, 100)]"
    by (simp add: accuracy_eval)
  from test_reports_sums_over_shard_size [OF h1 h2, of False 1 "Some ()", THEN conjunct2]
  show ?thesis by simp
qed

subsection \<open>The pipelines of the datasets\<close>

text \<open>
  Claim C7, as the code has it. When the interpolation mode is one of the library's,
  \<open>load_data\<close> attaches to the training dataset a random resized crop followed by the
  conversion to a float tensor and the normalization with the ImageNet mean and standard
  deviation, and to the evaluation dataset a resize, a center crop and the same
  conversion and normalization. The random resized crop is the only augmentation of the
  training pipeline: what follows it augments nothing.
\<close>

theorem load_data_pipelines:
  assumes "InterpolationMode (interpolation args) = Some m"
  shows "(\<exists>train_sampler test_sampler.
      load_data InterpolationMode train_dir test_dir args world_size rank =
        Inr (\<lparr>folder_root = train_dir,
               folder_transform =
                 RandomResizedCrop (train_crop_size args) m # float_tensor_normalized\<rparr>,
             \<lparr>folder_root = test_dir,
               folder_transform =
                 Resize (val_resize_size args) m # CenterCrop (val_crop_size args) #
                 float_tensor_normalized\<rparr>,
             train_sampler, test_sampler))
     \<and> list_all (\<lambda>t. \<not> is_augmentation t) (float_tensor_normalized :: 'i transform list)"
  using assms
  by (simp add: load_data_def float_tensor_normalized_def imagenet_mean_def imagenet_std_def Let_def)

theorem load_data_pipelines_witness:
  "map_sum id (\<lambda>r. (fst r, fst (snd r))) (load_data Some ''train'' ''val''
        \<lparr>interpolation = ''bilinear'', train_crop_size = 176, val_resize_size = 232, val_crop_size =
            224\<rparr> 4 0) =
   Inr (\<lparr>folder_root = ''train'',
          folder_transform = RandomResizedCrop 176 ''bilinear'' # float_tensor_normalized\<rparr>,
        \<lparr>folder_root = ''val'',
          folder_transform = Resize 232 ''bilinear'' # CenterCrop 224 # float_tensor_normalized\<rparr>)"
proof -
  have h: "Some (interpolation
        \<lparr>interpolation = ''bilinear'', train_crop_size = 176, val_resize_size = 232, val_crop_size =
            224\<rparr>) = Some ''bilinear''" by simp
  from load_data_pipelines [of Some, OF h, of "''train''" "''val''" 4 0] show ?thesis
    by auto
qed

text \<open>
  There is no augmentation besides the random resized crop, as claim C7 has it: after the
  crop the training pipeline holds no transform that augments.
\<close>

theorem train_pipeline_extra_augmentation_counterexample:
  "\<not> list_ex is_augmentation
      (tl (case load_data Some ''train'' ''val''
            \<lparr>interpolation = ''bilinear'', train_crop_size = 176, val_resize_size = 232,
                val_crop_size = 224\<rparr> 4 0 of
             Inl e \<Rightarrow> []
           | Inr r \<Rightarrow> folder_transform (fst r)))"
  by (simp add: load_data_def Let_def)


subsection \<open>Auxiliary facts about \<open>accuracy\<close>\<close>

lemma py_max_Max: "py_max ks = Inr m \<Longrightarrow> m = Max (set ks)"
  by (cases ks) (auto simp: Max.set_eq_fold [symmetric])

lemma py_max_nonempty: "topk \<noteq> [] \<Longrightarrow> py_max topk = Inr (Max (set topk))"
  by (cases topk) (simp_all add: Max.set_eq_fold [symmetric])

lemma accuracy_Scores:
  fixes s :: "'b::linorder tensor2"
  shows "accuracy topk_indices output (Scores s) topk =
     (if topk \<noteq> [] \<and> ncols s = 0 then Inl IndexError
      else accuracy topk_indices output
             (Labels (map (\<lambda>r. int (argmax_row r)) (rows s)) :: 'b target) topk)"
  by (cases topk) (simp_all add: accuracy_def max_dim1_indices_def Let_def)

subsection \<open>The selection of a row\<close>

lemma row_topk_okD:
  assumes "row_topk_ok k r p"
  shows "length p = k" and "distinct p" and "\<And>i. i \<in> set p \<Longrightarrow> i < length r"
    and "sorted_wrt (\<lambda>i j. r ! j \<le> r ! i) p"
    and "\<And>i j. j < length r \<Longrightarrow> j \<notin> set p \<Longrightarrow> i \<in> set p
        \<Longrightarrow> r ! j \<le> r ! i"
  using assms by (auto simp: row_topk_ok_def list_all_iff)






subsection \<open>Counting the matches\<close>

lemma count_in_distinct:
  "distinct p \<Longrightarrow> length (filter (\<lambda>a. int a = l) p) = (if l \<in> int ` set p then 1 else 0)"
  by (induction p) (auto simp: filter_empty_conv)

lemma length_filter_concat:
  "length (filter P (concat xss)) = sum_list (map (\<lambda>xs. length (filter P xs)) xss)"
  by (induction xss) simp_all

lemma sum_list_indicator:
  "sum_list (map (\<lambda>j. if Q j then 1 else 0) js) = length (filter Q js)"
  by (induction js) simp_all

lemma map_nth_upt_take: "k \<le> length p \<Longrightarrow> map (\<lambda>j. p ! j) [0..<k] = take k p"
  by (simp add: list_eq_iff_nth_eq)

lemma hits_of_row:
  assumes "k \<le> length p" "distinct p"
  shows "sum_list (map (\<lambda>j. if int (p ! j) = l then 1 else 0) [0..<k]) =
         (if l \<in> set (map int (take k p)) then 1 else (0::nat))"
proof -
  have "sum_list (map (\<lambda>j. if int (p ! j) = l then 1 else 0) [0..<k]) =
        length (filter (\<lambda>j. int (p ! j) = l) [0..<k])"
    by (rule sum_list_indicator)
  also have "\<dots> = length (filter (\<lambda>a. int a = l) (map (\<lambda>j. p ! j) [0..<k]))"
    by (simp add: filter_map comp_def)
  also have "\<dots> = length (filter (\<lambda>a. int a = l) (take k p))"
    by (simp only: map_nth_upt_take [OF assms(1)])
  also have "\<dots> = (if l \<in> int ` set (take k p) then 1 else 0)"
    by (rule count_in_distinct) (simp add: assms(2))
  finally show ?thesis by simp
qed

lemma count_selected:
  assumes "length ps = length ls" "k \<le> maxk" "\<forall>p\<in>set ps. length p = maxk \<and> distinct p"
  shows "sum_list (map (\<lambda>j. length (filter id
            (map2 (\<lambda>a b. int a = b) (map (\<lambda>p. p ! j) ps) ls))) [0..<k]) =
         selected_hits k ps ls"
  using assms(1,3)
proof (induction ps ls rule: list_induct2)
  case Nil
  then show ?case by (simp add: selected_hits_def)
next
  case (Cons p ps l ls)
  let ?row = "\<lambda>ps ls j. length (filter id (map2 (\<lambda>a b. int a = b) (map (\<lambda>p. p ! j) ps) ls))"
  have step: "?row (p # ps) (l # ls) j = (if int (p ! j) = l then 1 else 0) + ?row ps ls j" for j
    by simp
  have ih: "sum_list (map (?row ps ls) [0..<k]) = selected_hits k ps ls"
    by (rule Cons.IH) (use Cons.prems in simp)
  have hd_ok: "k \<le> length p" "distinct p"
    using Cons.prems assms(2) by simp_all
  have "sum_list (map (?row (p # ps) (l # ls)) [0..<k]) =
        sum_list (map (\<lambda>j. (if int (p ! j) = l then 1 else 0) + ?row ps ls j) [0..<k])"
    by (simp only: step)
  also have "\<dots> = sum_list (map (\<lambda>j. if int (p ! j) = l then 1 else 0) [0..<k]) +
        sum_list (map (?row ps ls) [0..<k])"
    by (simp only: sum_list_addf)
  also have "\<dots> = (if l \<in> set (map int (take k p)) then 1 else 0) + selected_hits k ps ls"
    by (simp only: hits_of_row [OF hd_ok] ih)
  finally have "sum_list (map (?row (p # ps) (l # ls)) [0..<k]) = selected_hits k (p # ps) (l # ls)"
    by (simp add: selected_hits_def)
  then show ?case .
qed

lemma sum_first_rows_selected:
  assumes "length ps = length labels" "k \<le> maxk" "\<forall>p\<in>set ps. length p = maxk \<and> distinct p"
  shows "sum_first_rows k
           \<lparr>ncols = length ps,
            rows = map (\<lambda>row. map2 (\<lambda>a b. int a = b) row labels)
                     (map (\<lambda>j. map (\<lambda>p. p ! j) ps) [0..<maxk])\<rparr>
         = selected_hits k ps labels"
proof -
  have "take k [0..<maxk] = [0..<k]"
    using assms(2) by (simp add: take_upt)
  then show ?thesis
    using count_selected [OF assms]
    by (simp add: sum_first_rows_def take_map length_filter_concat comp_def)
qed

lemma accuracy_Labels:
  assumes ok: "topk_ok topk_indices (Max (set topk)) output"
    and len: "length (rows output) = length labels" and "labels \<noteq> []"
    and "topk \<noteq> []" and le: "Max (set topk) \<le> ncols output"
  shows "accuracy topk_indices output (Labels labels) topk =
     Inr (map (\<lambda>k. real (selected_hits k (topk_indices (Max (set topk)) output) labels) *
                 (100 / real (length labels))) topk)"
proof -
  let ?maxk = "Max (set topk)"
  let ?ps = "topk_indices ?maxk output"
  have all2: "list_all2 (row_topk_ok ?maxk) (rows output) ?ps"
    using ok by (simp add: topk_ok_def)
  then have len_ps: "length ?ps = length labels"
    using len by (simp add: list_all2_lengthD)
  have each: "\<forall>p\<in>set ?ps. length p = ?maxk \<and> distinct p"
  proof
    fix p assume "p \<in> set ?ps"
    then obtain i where i: "i < length ?ps" "?ps ! i = p"
      by (auto simp: in_set_conv_nth)
    from list_all2_nthD2 [OF all2 i(1)] i(2)
    have "row_topk_ok ?maxk (rows output ! i) p" by simp
    then show "length p = ?maxk \<and> distinct p"
      using row_topk_okD(1,2) by blast
  qed
  have hits: "sum_first_rows k
           \<lparr>ncols = length ?ps,
            rows = map (\<lambda>row. map2 (\<lambda>a b. int a = b) row labels)
                     (map (\<lambda>j. map (\<lambda>p. p ! j) ?ps) [0..<?maxk])\<rparr>
         = selected_hits k ?ps labels" if "k \<in> set topk" for k
    using that by (intro sum_first_rows_selected len_ps each) simp
  have fits: "\<not> ncols output < ?maxk"
    using le by (simp only: not_less)
  have "tensor_topk topk_indices ?maxk output = Inr \<lparr>ncols = ?maxk, rows = ?ps\<rparr>"
    using fits by (simp only: tensor_topk_def if_False)
  then show ?thesis
    using assms(3,4) hits len_ps
    by (simp add: accuracy_def py_max_nonempty tensor_t_def eq_broadcast_def Let_def)
qed

subsection \<open>The example selection\<close>

lemma ranks_before_asym: "ranks_before xs i j \<Longrightarrow> \<not> ranks_before xs j i"
  by (auto simp: ranks_before_def)











subsection \<open>The argmax of a row\<close>

lemma argmax_scan_first_max:
  assumes "zs = ys @ xs" "length ys = i" "best < i" "bv = zs ! best"
    "\<forall>j<i. zs ! j \<le> bv" "\<forall>j<best. zs ! j < bv"
  shows "argmax_scan xs i best bv < length zs
     \<and> (\<forall>j<length zs. zs ! j \<le> zs ! argmax_scan xs i best bv)
     \<and> (\<forall>j<argmax_scan xs i best bv. zs ! j < zs ! argmax_scan xs i best bv)"
  using assms
proof (induction xs arbitrary: ys i best bv)
  case Nil
  then show ?case by simp
next
  case (Cons x xs)
  have zi: "zs ! i = x"
    using Cons.prems(1,2) by (simp add: nth_append)
  have split: "zs = (ys @ [x]) @ xs" "length (ys @ [x]) = Suc i"
    using Cons.prems(1,2) by simp_all
  show ?case
  proof (cases "bv < x")
    case True
    have "\<forall>j<Suc i. zs ! j \<le> x"
      using Cons.prems(5) True zi by (auto simp: less_Suc_eq)
    moreover have "\<forall>j<i. zs ! j < x"
      using Cons.prems(5) True by auto
    ultimately show ?thesis
      using Cons.IH [OF split, of i x] True zi by simp
  next
    case False
    have "\<forall>j<Suc i. zs ! j \<le> bv"
      using Cons.prems(5) False zi by (auto simp: less_Suc_eq)
    then show ?thesis
      using Cons.IH [OF split, of best bv] False Cons.prems(3,4,6) by simp
  qed
qed

lemma argmax_row_first_max:
  assumes "r \<noteq> []"
  shows "is_first_argmax r (argmax_row r)"
proof -
  obtain x xs where r: "r = x # xs" using assms by (cases r) auto
  have "argmax_scan xs 1 0 x < length (x # xs)
     \<and> (\<forall>j<length (x # xs). (x # xs) ! j \<le> (x # xs) ! argmax_scan xs 1 0 x)
     \<and> (\<forall>j<argmax_scan xs 1 0 x. (x # xs) ! j < (x # xs) ! argmax_scan xs 1 0 x)"
    by (rule argmax_scan_first_max [where ys = "[x]"]) simp_all
  then show ?thesis
    unfolding r is_first_argmax_def list_all_iff by simp
qed


subsection \<open>What \<open>accuracy\<close> returns\<close>





text \<open>
  Claim C9. On a two-dimensional target \<open>accuracy\<close> returns what it returns on the
  one-dimensional target of the row-wise argmax indices (and raises when the target has no
  column); the index taken for a row is that of its first maximal entry. On a
  one-dimensional target the labels are compared as they are: the value for \<open>k\<close> counts the
  examples whose own label is among the first \<open>k\<close> indices that the selection lists for
  their row.
\<close>

theorem accuracy_reduces_scores_by_argmax:
  fixes s :: "'b::linorder tensor2"
  shows "accuracy topk_indices output (Scores s) topk =
     (if topk \<noteq> [] \<and> ncols s = 0 then Inl IndexError
      else accuracy topk_indices output
             (Labels (map (\<lambda>r. int (argmax_row r)) (rows s)) :: 'b target) topk)
   \<and> (wf_tensor2 s \<and> ncols s \<noteq> 0 \<longrightarrow>
        list_all (\<lambda>r. is_first_argmax r (argmax_row r)) (rows s))
   \<and> (topk_ok topk_indices (Max (set topk)) output \<and> length (rows output) = length labels
        \<and> labels \<noteq> [] \<and> topk \<noteq> [] \<and> (\<forall>k\<in>set topk. k \<le> ncols
            output) \<longrightarrow>
      accuracy topk_indices output (Labels labels :: 'b target) topk =
        Inr (map (\<lambda>k. real (selected_hits k (topk_indices (Max (set topk)) output) labels) *
                    (100 / real (length labels))) topk))"
proof (intro conjI impI)
  show "accuracy topk_indices output (Scores s) topk =
     (if topk \<noteq> [] \<and> ncols s = 0 then Inl IndexError
      else accuracy topk_indices output
             (Labels (map (\<lambda>r. int (argmax_row r)) (rows s)) :: 'b target) topk)"
    by (rule accuracy_Scores)
next
  assume "wf_tensor2 s \<and> ncols s \<noteq> 0"
  then have "r \<noteq> []" if "r \<in> set (rows s)" for r
    using that by (auto simp: wf_tensor2_def list_all_iff)
  then show "list_all (\<lambda>r. is_first_argmax r (argmax_row r)) (rows s)"
    by (simp add: list_all_iff argmax_row_first_max)
next
  assume a: "topk_ok topk_indices (Max (set topk)) output \<and> length (rows output) = length labels
        \<and> labels \<noteq> [] \<and> topk \<noteq> [] \<and> (\<forall>k\<in>set topk. k \<le> ncols output)"
  then have "Max (set topk) \<le> ncols output" by simp
  with a show "accuracy topk_indices output (Labels labels :: 'b target) topk =
        Inr (map (\<lambda>k. real (selected_hits k (topk_indices (Max (set topk)) output) labels) *
                    (100 / real (length labels))) topk)"
    by (intro accuracy_Labels) simp_all
qed

theorem accuracy_reduces_scores_by_argmax_witness:
  "accuracy example_topk
     (\<lparr>ncols = 5, rows = [[1, 9, 3, 7, 5], [2, 6, 4, 8, 0], [5, 4, 3, 2, 1]]\<rparr> :: real tensor2)
     (Scores (\<lparr>ncols = 2, rows = [[3, 1], [0, 1], [1, 0]]\<rparr> :: real tensor2)) [1, 2] =
   accuracy example_topk
     (\<lparr>ncols = 5, rows = [[1, 9, 3, 7, 5], [2, 6, 4, 8, 0], [5, 4, 3, 2, 1]]\<rparr> :: real tensor2)
     (Labels [0, 1, 0] :: real target) [1, 2]"
  using accuracy_reduces_scores_by_argmax
    [of example_topk "\<lparr>ncols = 5, rows = [[1, 9, 3, 7, 5], [2, 6, 4, 8, 0], [5, 4, 3, 2, 1]]\<rparr> :: real tensor2"
        "\<lparr>ncols = 2, rows = [[3, 1], [0, 1], [1, 0]]\<rparr> :: real tensor2" "[1, 2]", THEN conjunct1]
  by simp


end
